theory Spec2Isabelle
  imports Main "HOL-Library.Sublist"
begin

section \<open>Text\<close>

text \<open>
  A Python \<open>str\<close> is a sequence of code points. It is modelled as a \<^typ>\<open>string\<close> in which
  every \<^typ>\<open>char\<close> stands for the code point with the same number, so the model covers the
  texts whose code points lie below 256 (ASCII and Latin-1). On that range \<open>str.isspace\<close>
  holds exactly for 9..13, 28..32, 133 and 160, and \<open>str.lower\<close> adds 32 to the letters
  65..90 and 192..222 (215, the multiplication sign, is no letter) and leaves every other
  code point alone.
\<close>

definition py_isspace :: "char \<Rightarrow> bool" where
  "py_isspace c =
     (let n = (of_char c :: nat)
      in (9 \<le> n \<and> n \<le> 13) \<or> (28 \<le> n \<and> n \<le> 32) \<or> n = 133 \<or> n = 160)"

definition has_lowercase :: "char \<Rightarrow> bool" where
  "has_lowercase c =
     (let n = (of_char c :: nat)
      in (65 \<le> n \<and> n \<le> 90) \<or> (192 \<le> n \<and> n \<le> 222 \<and> n \<noteq> 215))"

definition py_lower_char :: "char \<Rightarrow> char" where
  "py_lower_char c = (if has_lowercase c then char_of ((of_char c :: nat) + 32) else c)"

definition lower :: "string \<Rightarrow> string" where
  "lower s = map py_lower_char s"

definition lstrip :: "string \<Rightarrow> string" where
  "lstrip s = dropWhile py_isspace s"

definition rstrip :: "string \<Rightarrow> string" where
  "rstrip s = rev (dropWhile py_isspace (rev s))"

definition strip :: "string \<Rightarrow> string" where
  "strip s = rstrip (lstrip s)"

text \<open>\<open>_normalize(text)\<close>: \<open>text.strip().lower()\<close>.\<close>

definition normalize_text :: "string \<Rightarrow> string" where
  "normalize_text s = lower (strip s)"

text \<open>\<open>sub in s\<close> on strings: is \<open>sub\<close> a contiguous part of \<open>s\<close>. The search tries
  every start position from the left.\<close>

fun startswith :: "string \<Rightarrow> string \<Rightarrow> bool" where
  "startswith s [] = True"
| "startswith [] (p # ps) = False"
| "startswith (c # cs) (p # ps) = (c = p \<and> startswith cs ps)"

fun py_in :: "string \<Rightarrow> string \<Rightarrow> bool" where
  "py_in sub [] = (sub = [])"
| "py_in sub (c # cs) = (startswith (c # cs) sub \<or> py_in sub cs)"

section \<open>Parsed JSON and Python's dynamic operations on it\<close>

text \<open>
  \<open>json.loads\<close> yields \<open>None\<close>, booleans, numbers, strings, lists and dicts. A dict is an
  association list in insertion order with distinct keys. Numbers are never computed
  with by the code below, only told apart from the other kinds.
\<close>

datatype json =
    JNull
  | JBool bool
  | JNum int
  | JStr string
  | JArr "json list"
  | JObj "(string \<times> json) list"

datatype py_error = AttributeError | TypeError | KeyError | LoadError | OverflowError

text \<open>\<open>d.get(key, default)\<close>: only a dict has \<open>get\<close>.\<close>

fun dict_get :: "json \<Rightarrow> string \<Rightarrow> json \<Rightarrow> py_error + json" where
  "dict_get (JObj kvs) k d = Inr (case map_of kvs k of None \<Rightarrow> d | Some v \<Rightarrow> v)"
| "dict_get _ k d = Inl AttributeError"

text \<open>\<open>{**d, key: v}\<close> and \<open>d[key] = v\<close>: an existing key keeps its place, a new key goes
  last.\<close>

fun dict_set :: "string \<Rightarrow> 'v \<Rightarrow> (string \<times> 'v) list \<Rightarrow> (string \<times> 'v) list" where
  "dict_set k v [] = [(k, v)]"
| "dict_set k v (p # ps) = (if fst p = k then (k, v) # ps else p # dict_set k v ps)"

text \<open>\<open>for x in v\<close>: a list gives its elements, a dict its keys, a string its characters;
  nothing else is iterable.\<close>

fun py_iter :: "json \<Rightarrow> py_error + json list" where
  "py_iter (JArr xs) = Inr xs"
| "py_iter (JObj kvs) = Inr (map (\<lambda>kv. JStr (fst kv)) kvs)"
| "py_iter (JStr s) = Inr (map (\<lambda>c. JStr [c]) s)"
| "py_iter _ = Inl TypeError"

text \<open>\<open>_normalize\<close> applied to a value read from a document: only a string has
  \<open>strip\<close>.\<close>

fun normalize_json :: "json \<Rightarrow> py_error + string" where
  "normalize_json (JStr s) = Inr (normalize_text s)"
| "normalize_json _ = Inl AttributeError"

section \<open>Loading framework documents\<close>

text \<open>
  The files of the data directory, by file name: \<open>None\<close> is a file that cannot be read or
  parsed. \<open>reads\<close> is the log of the reads done so far, the only state of the loader:
  \<open>load_json\<close> opens and parses the file at every call.
\<close>

record world =
  files :: "string \<Rightarrow> json option"
  reads :: "string list"

definition load_json :: "string \<Rightarrow> world \<Rightarrow> (py_error + json) \<times> world" where
  "load_json path w =
     ((case files w path of None \<Rightarrow> Inl LoadError | Some j \<Rightarrow> Inr j),
      w\<lparr>reads := reads w @ [path]\<rparr>)"

definition load_framework_data :: "string \<Rightarrow> world \<Rightarrow> (py_error + json) \<times> world" where
  "load_framework_data file_name w = load_json file_name w"

definition FRAMEWORK_FILES :: "string \<Rightarrow> string option" where
  "FRAMEWORK_FILES = map_of
     [(''NIST 800-53'', ''nist-800-53-r5.json''),
      (''NIST 800-171'', ''nist-800-171-r2.json''),
      (''CMMC'', ''cmmc-2.0-practices.json''),
      (''NIST AI RMF'', ''nist-ai-rmf.json''),
      (''ISO 42001'', ''iso-42001.json''),
      (''EU AI Act'', ''eu-ai-act.json''),
      (''ISO 27001'', ''iso-27001.json''),
      (''SOC 2'', ''soc2.json''),
      (''CSA CCM'', ''csa-ccm.json''),
      (''NIST Privacy Framework'', ''nist-privacy-framework.json''),
      (''GDPR'', ''gdpr.json''),
      (''CCPA'', ''ccpa.json''),
      (''OECD AI Principles'', ''oecd-ai-principles.json''),
      (''White House EO 14110'', ''white-house-eo-14110.json''),
      (''DFARS 252.204-7012'', ''dfars-252.204-7012.json''),
      (''FISMA'', ''fisma.json''),
      (''FedRAMP'', ''fedramp-baselines.json'')]"

section \<open>Control lookup\<close>

text \<open>The loop \<open>for x in xs: if _normalize(x.get(key, "")) == target: return x\<close>.\<close>

fun first_match :: "string \<Rightarrow> string \<Rightarrow> json list \<Rightarrow> py_error + json option" where
  "first_match key target [] = Inr None"
| "first_match key target (x # xs) =
     (case dict_get x key (JStr []) of
        Inl e \<Rightarrow> Inl e
      | Inr v \<Rightarrow>
          (case normalize_json v of
             Inl e \<Rightarrow> Inl e
           | Inr s \<Rightarrow> if s = target then Inr (Some x) else first_match key target xs))"

text \<open>The nested loops of the CMMC and AI RMF branches, over the list of levels
  (functions): \<open>inner\<close> is the key of their practices (categories), and a match is
  returned as \<open>{**match, tag: group.get(tag_from)}\<close>. Only a dict comes back from
  \<open>first_match\<close>, so the \<open>TypeError\<close> of unpacking anything else is never reached.\<close>

fun nested_match ::
  "string \<Rightarrow> string \<Rightarrow> string \<Rightarrow> string \<Rightarrow> json list \<Rightarrow> py_error + json option" where
  "nested_match inner tag tag_from target [] = Inr None"
| "nested_match inner tag tag_from target (grp # grps) =
     (case dict_get grp inner (JArr []) of
        Inl e \<Rightarrow> Inl e
      | Inr members \<Rightarrow>
          (case py_iter members of
             Inl e \<Rightarrow> Inl e
           | Inr ms \<Rightarrow>
               (case first_match ''id'' target ms of
                  Inl e \<Rightarrow> Inl e
                | Inr (Some (JObj kvs)) \<Rightarrow>
                    (case dict_get grp tag_from JNull of
                       Inl e \<Rightarrow> Inl e
                     | Inr t \<Rightarrow> Inr (Some (JObj (dict_set tag t kvs))))
                | Inr (Some _) \<Rightarrow> Inl TypeError
                | Inr None \<Rightarrow> nested_match inner tag tag_from target grps)))"

text \<open>The FedRAMP loop. \<open>baseline["baseline"]\<close> raises \<open>KeyError\<close> when the key is
  absent; when it is present it is the string the \<open>get\<close> has just returned.\<close>

fun baseline_match :: "string \<Rightarrow> json list \<Rightarrow> py_error + json option" where
  "baseline_match target [] = Inr None"
| "baseline_match target (b # bs) =
     (case dict_get b ''baseline'' (JStr []) of
        Inl e \<Rightarrow> Inl e
      | Inr v \<Rightarrow>
          (case v of
             JStr s \<Rightarrow>
               if normalize_text s = target then
                 (case b of
                    JObj kvs \<Rightarrow>
                      (case map_of kvs ''baseline'' of
                         None \<Rightarrow> Inl KeyError
                       | Some _ \<Rightarrow>
                           (case dict_get b ''description'' (JStr []) of
                              Inl e \<Rightarrow> Inl e
                            | Inr d \<Rightarrow>
                                Inr (Some (JObj
                                  [(''id'', JStr s),
                                   (''name'', JStr (''FedRAMP '' @ s @ '' baseline'')),
                                   (''requirements'', JArr [d])]))))
                  | _ \<Rightarrow> Inl AttributeError)
               else baseline_match target bs
           | _ \<Rightarrow> Inl AttributeError))"

text \<open>Sequencing of the branches of \<open>_find_control\<close>: an exception or a \<open>return\<close> of an
  earlier branch ends the function.\<close>

definition or_else ::
  "py_error + json option \<Rightarrow> py_error + json option \<Rightarrow> py_error + json option" where
  "or_else r k = (case r of Inl e \<Rightarrow> Inl e | Inr (Some x) \<Rightarrow> Inr (Some x) | Inr None \<Rightarrow> k)"

text \<open>\<open>for x in data.get(key, [])\<close> followed by the loop \<open>body\<close>.\<close>

definition for_in ::
  "json \<Rightarrow> string \<Rightarrow> (json list \<Rightarrow> py_error + json option) \<Rightarrow> py_error + json option" where
  "for_in data key body =
     (case dict_get data key (JArr []) of
        Inl e \<Rightarrow> Inl e
      | Inr v \<Rightarrow> (case py_iter v of Inl e \<Rightarrow> Inl e | Inr xs \<Rightarrow> body xs))"

text \<open>The body of \<open>_find_control\<close> after the document is loaded.\<close>

definition find_in_document :: "string \<Rightarrow> json \<Rightarrow> string \<Rightarrow> py_error + json option" where
  "find_in_document framework data target =
     (case dict_get data ''controls'' JNull of
        Inl e \<Rightarrow> Inl e
      | Inr controls \<Rightarrow>
          or_else (case controls of JArr cs \<Rightarrow> first_match ''id'' target cs | _ \<Rightarrow> Inr None)
         (or_else (if framework = ''CMMC''
                   then for_in data ''levels''
                          (nested_match ''practices'' ''level'' ''level'' target)
                   else Inr None)
         (or_else (if framework = ''NIST AI RMF''
                   then for_in data ''functions''
                          (nested_match ''categories'' ''function'' ''id'' target)
                   else Inr None)
                  (if framework = ''FedRAMP''
                   then for_in data ''baselines'' (baseline_match target)
                   else Inr None))))"

definition find_control ::
  "string \<Rightarrow> string \<Rightarrow> world \<Rightarrow> (py_error + json option) \<times> world" where
  "find_control framework control_id w =
     (case FRAMEWORK_FILES framework of
        None \<Rightarrow> (Inr None, w)
      | Some file_name \<Rightarrow>
          (case load_framework_data file_name w of
             (Inl e, w') \<Rightarrow> (Inl e, w')
           | (Inr data, w') \<Rightarrow>
               (find_in_document framework data (normalize_text control_id), w')))"

text \<open>\<open>if not control: absent; else: present(control)\<close>. \<open>None\<close> and the empty dict are
  false.\<close>

definition if_not_control :: "json option \<Rightarrow> 'a \<Rightarrow> (json \<Rightarrow> 'a) \<Rightarrow> 'a" where
  "if_not_control control absent present =
     (case control of
        None \<Rightarrow> absent
      | Some c \<Rightarrow> if c = JObj [] then absent else present c)"

record lookup_result =
  lr_framework :: string
  lr_control_id :: json
  lr_control_name :: json
  lr_requirements :: json
  lr_assessment_objectives :: json

definition control_fields :: "string \<Rightarrow> string \<Rightarrow> json \<Rightarrow> py_error + lookup_result" where
  "control_fields framework control_id control =
     (case dict_get control ''id'' (JStr control_id) of
        Inl e \<Rightarrow> Inl e
      | Inr i \<Rightarrow>
     (case dict_get control ''name'' JNull of
        Inl e \<Rightarrow> Inl e
      | Inr n \<Rightarrow>
     (case dict_get control ''requirements'' (JArr []) of
        Inl e \<Rightarrow> Inl e
      | Inr r \<Rightarrow>
     (case dict_get control ''assessment_objectives'' (JArr []) of
        Inl e \<Rightarrow> Inl e
      | Inr a \<Rightarrow>
          Inr \<lparr>lr_framework = framework, lr_control_id = i, lr_control_name = n,
               lr_requirements = r, lr_assessment_objectives = a\<rparr>))))"

definition not_found :: "string \<Rightarrow> string \<Rightarrow> lookup_result" where
  "not_found framework control_id =
     \<lparr>lr_framework = framework, lr_control_id = JStr control_id, lr_control_name = JNull,
      lr_requirements = JArr [], lr_assessment_objectives = JArr []\<rparr>"

definition control_lookup ::
  "string \<Rightarrow> string \<Rightarrow> world \<Rightarrow> (py_error + lookup_result) \<times> world" where
  "control_lookup framework control_id w =
     (case find_control framework control_id w of
        (Inl e, w') \<Rightarrow> (Inl e, w')
      | (Inr control, w') \<Rightarrow>
          (if_not_control control
             (Inr (not_found framework control_id))
             (control_fields framework control_id), w'))"

section \<open>Gap analysis\<close>

record gap_result =
  ga_control_id :: string
  ga_requirements :: json
  ga_implementation_description :: string
  ga_heuristic_gaps :: "json list"

text \<open>\<open>[req for req in requirements if _normalize(req) not in description]\<close>.\<close>

fun heuristic_gaps :: "string \<Rightarrow> json list \<Rightarrow> py_error + json list" where
  "heuristic_gaps description [] = Inr []"
| "heuristic_gaps description (req # reqs) =
     (case normalize_json req of
        Inl e \<Rightarrow> Inl e
      | Inr n \<Rightarrow>
          (case heuristic_gaps description reqs of
             Inl e \<Rightarrow> Inl e
           | Inr gaps \<Rightarrow> Inr (if py_in n description then gaps else req # gaps)))"

definition analyze_control :: "string \<Rightarrow> string \<Rightarrow> json \<Rightarrow> py_error + gap_result" where
  "analyze_control control_id implementation_description control =
     (let description = normalize_text implementation_description in
      case dict_get control ''requirements'' (JArr []) of
        Inl e \<Rightarrow> Inl e
      | Inr requirements \<Rightarrow>
          (case py_iter requirements of
             Inl e \<Rightarrow> Inl e
           | Inr reqs \<Rightarrow>
               (case heuristic_gaps description reqs of
                  Inl e \<Rightarrow> Inl e
                | Inr gaps \<Rightarrow>
                    Inr \<lparr>ga_control_id = control_id, ga_requirements = requirements,
                         ga_implementation_description = implementation_description,
                         ga_heuristic_gaps = gaps\<rparr>)))"

definition gap_analyzer ::
  "string \<Rightarrow> string \<Rightarrow> string \<Rightarrow> world \<Rightarrow> (py_error + gap_result) \<times> world" where
  "gap_analyzer framework control_id implementation_description w =
     (case find_control framework control_id w of
        (Inl e, w') \<Rightarrow> (Inl e, w')
      | (Inr control, w') \<Rightarrow>
          (if_not_control control
             (Inr \<lparr>ga_control_id = control_id, ga_requirements = JArr [],
                   ga_implementation_description = implementation_description,
                   ga_heuristic_gaps = [JStr ''Control not found in data set.'']\<rparr>)
             (analyze_control control_id implementation_description), w'))"

section \<open>CMMC level check\<close>

text \<open>\<open>d[key]\<close>: \<open>KeyError\<close> on a dict without the key, \<open>TypeError\<close> on a value that is
  no dict (a string or a list takes integer indices, the rest no index).\<close>

fun dict_index :: "json \<Rightarrow> string \<Rightarrow> py_error + json" where
  "dict_index (JObj kvs) k = (case map_of kvs k of None \<Rightarrow> Inl KeyError | Some v \<Rightarrow> Inr v)"
| "dict_index _ k = Inl TypeError"

text \<open>The set comprehension \<open>{_normalize(item["control_id"]) for item in implementations
  if _normalize(item["status"]) in ("implemented", "satisfied")}\<close>: the condition is
  evaluated first, the id only of the items that pass it. The set is kept as the list of
  its members.\<close>

fun implemented_ids :: "json list \<Rightarrow> py_error + string list" where
  "implemented_ids [] = Inr []"
| "implemented_ids (item # items) =
     (case dict_index item ''status'' of
        Inl e \<Rightarrow> Inl e
      | Inr st \<Rightarrow>
          (case normalize_json st of
             Inl e \<Rightarrow> Inl e
           | Inr s \<Rightarrow>
               if s = ''implemented'' \<or> s = ''satisfied'' then
                 (case dict_index item ''control_id'' of
                    Inl e \<Rightarrow> Inl e
                  | Inr c \<Rightarrow>
                      (case normalize_json c of
                         Inl e \<Rightarrow> Inl e
                       | Inr n \<Rightarrow>
                           (case implemented_ids items of
                              Inl e \<Rightarrow> Inl e
                            | Inr ids \<Rightarrow> Inr (n # ids))))
               else implemented_ids items))"

text \<open>\<open>[p for p in practices if _normalize(p.get("id", "")) not in implemented]\<close>.\<close>

fun missing_practices :: "string list \<Rightarrow> json list \<Rightarrow> py_error + json list" where
  "missing_practices implemented [] = Inr []"
| "missing_practices implemented (p # ps) =
     (case dict_get p ''id'' (JStr []) of
        Inl e \<Rightarrow> Inl e
      | Inr v \<Rightarrow>
          (case normalize_json v of
             Inl e \<Rightarrow> Inl e
           | Inr n \<Rightarrow>
               (case missing_practices implemented ps of
                  Inl e \<Rightarrow> Inl e
                | Inr missing \<Rightarrow> Inr (if n \<in> set implemented then missing else p # missing))))"

text \<open>The missing practices of one level: \<open>level.get("practices", [])\<close>, iterated.\<close>

definition level_missing :: "string list \<Rightarrow> json \<Rightarrow> py_error + json list" where
  "level_missing implemented level =
     (case dict_get level ''practices'' (JArr []) of
        Inl e \<Rightarrow> Inl e
      | Inr practices \<Rightarrow>
          (case py_iter practices of
             Inl e \<Rightarrow> Inl e
           | Inr ps \<Rightarrow> missing_practices implemented ps))"

text \<open>The walk over the levels, from the level achieved so far: it ends at the first
  level with a missing practice (\<open>break\<close>), with the number of its missing practices;
  \<open>gaps_to_next\<close> stays 0 when no level stops it.\<close>

fun walk_levels :: "string list \<Rightarrow> json list \<Rightarrow> json \<Rightarrow> py_error + json \<times> nat" where
  "walk_levels implemented [] achieved = Inr (achieved, 0)"
| "walk_levels implemented (level # levels) achieved =
     (case level_missing implemented level of
        Inl e \<Rightarrow> Inl e
      | Inr missing \<Rightarrow>
          if missing = [] then
            (case dict_get level ''level'' (JStr ''None'') of
               Inl e \<Rightarrow> Inl e
             | Inr a \<Rightarrow> walk_levels implemented levels a)
          else Inr (achieved, length missing))"

record level_result =
  cl_level :: json
  cl_gaps_to_next_level :: nat

definition check_levels :: "json list \<Rightarrow> json \<Rightarrow> py_error + level_result" where
  "check_levels implementations data =
     (case implemented_ids implementations of
        Inl e \<Rightarrow> Inl e
      | Inr implemented \<Rightarrow>
          (case dict_get data ''levels'' (JArr []) of
             Inl e \<Rightarrow> Inl e
           | Inr ls \<Rightarrow>
               (case py_iter ls of
                  Inl e \<Rightarrow> Inl e
                | Inr levels \<Rightarrow>
                    (case walk_levels implemented levels (JStr ''None'') of
                       Inl e \<Rightarrow> Inl e
                     | Inr (achieved, gaps_to_next) \<Rightarrow>
                         Inr \<lparr>cl_level = achieved, cl_gaps_to_next_level = gaps_to_next\<rparr>))))"

definition cmmc_level_checker ::
  "json list \<Rightarrow> world \<Rightarrow> (py_error + level_result) \<times> world" where
  "cmmc_level_checker implementations w =
     (case FRAMEWORK_FILES ''CMMC'' of
        None \<Rightarrow> (Inl KeyError, w)
      | Some file_name \<Rightarrow>
          (case load_framework_data file_name w of
             (Inl e, w') \<Rightarrow> (Inl e, w')
           | (Inr data, w') \<Rightarrow> (check_levels implementations data, w')))"

text \<open>
  The rank of the achieved level, for stating that it never decreases: the number of
  leading levels of the CMMC document with no missing practice. \<open>level_label\<close> is the
  label the walk holds after that many levels.
\<close>

definition level_complete :: "string list \<Rightarrow> json \<Rightarrow> bool" where
  "level_complete implemented level = (level_missing implemented level = Inr [])"

definition missing_count :: "string list \<Rightarrow> json \<Rightarrow> nat" where
  "missing_count implemented level =
     (case level_missing implemented level of Inl e \<Rightarrow> 0 | Inr missing \<Rightarrow> length missing)"

fun label_after :: "json \<Rightarrow> json list \<Rightarrow> nat \<Rightarrow> json" where
  "label_after a levels 0 = a"
| "label_after a [] (Suc k) = a"
| "label_after a (level # levels) (Suc k) =
     label_after (case dict_get level ''level'' (JStr ''None'') of Inl e \<Rightarrow> a | Inr v \<Rightarrow> v)
       levels k"

definition cmmc_levels :: "world \<Rightarrow> json list" where
  "cmmc_levels w =
     (case files w ''cmmc-2.0-practices.json'' of
        None \<Rightarrow> []
      | Some data \<Rightarrow>
          (case dict_get data ''levels'' (JArr []) of
             Inl e \<Rightarrow> []
           | Inr ls \<Rightarrow> (case py_iter ls of Inl e \<Rightarrow> [] | Inr levels \<Rightarrow> levels)))"

definition implemented_of :: "json list \<Rightarrow> string list" where
  "implemented_of implementations =
     (case implemented_ids implementations of Inl e \<Rightarrow> [] | Inr ids \<Rightarrow> ids)"

definition levels_achieved :: "json list \<Rightarrow> world \<Rightarrow> nat" where
  "levels_achieved implementations w =
     length (takeWhile (level_complete (implemented_of implementations)) (cmmc_levels w))"

definition level_label :: "world \<Rightarrow> nat \<Rightarrow> json" where
  "level_label w k = label_after (JStr ''None'') (cmmc_levels w) k"

section \<open>AI risk classification\<close>

record risk_class =
  eu_ai_act_risk_tier :: string
  nist_ai_rmf_function :: string

definition ai_risk_classifier :: "string \<Rightarrow> risk_class" where
  "ai_risk_classifier system_description =
     (let text = normalize_text system_description in
      if py_in ''social scoring'' text \<or> py_in ''subliminal'' text then
        \<lparr>eu_ai_act_risk_tier = ''unacceptable'', nist_ai_rmf_function = ''govern''\<rparr>
      else if list_ex (\<lambda>kw. py_in kw text)
                [''biometric'', ''critical infrastructure'', ''employment'', ''law enforcement'']
      then \<lparr>eu_ai_act_risk_tier = ''high'', nist_ai_rmf_function = ''map''\<rparr>
      else if py_in ''chatbot'' text \<or> py_in ''recommendation'' text then
        \<lparr>eu_ai_act_risk_tier = ''limited'', nist_ai_rmf_function = ''measure''\<rparr>
      else \<lparr>eu_ai_act_risk_tier = ''minimal'', nist_ai_rmf_function = ''manage''\<rparr>)"

section \<open>Baseline selection\<close>

text \<open>The arguments of the tool: the three impacts are read with \<open>args[...]\<close>, the others
  with \<open>args.get\<close> and may be absent.\<close>

record baseline_args =
  confidentiality_impact :: string
  integrity_impact :: string
  availability_impact :: string
  data_types :: "string list option"
  mission :: "string option"
  regulatory_requirements :: "string list option"

record baseline_result =
  fedramp_baseline :: string
  dod_impact_level :: "string option"
  fips_confidentiality :: string
  fips_integrity :: string
  fips_availability :: string
  fips_overall :: string
  rationale :: "string list"

text \<open>\<open>impact_rank.get(x, 1)\<close>, \<open>rank_to_level.get(r, "low")\<close> and
  \<open>baseline_map.get(level, "FedRAMP Low")\<close>.\<close>

definition impact_rank :: "string \<Rightarrow> nat" where
  "impact_rank x =
     (if x = ''low'' then 1 else if x = ''moderate'' then 2 else if x = ''high'' then 3 else 1)"

definition rank_to_level :: "nat \<Rightarrow> string" where
  "rank_to_level r =
     (if r = 1 then ''low'' else if r = 2 then ''moderate'' else if r = 3 then ''high''
      else ''low'')"

definition baseline_map :: "string \<Rightarrow> string" where
  "baseline_map level =
     (if level = ''low'' then ''FedRAMP Low''
      else if level = ''moderate'' then ''FedRAMP Moderate''
      else if level = ''high'' then ''FedRAMP High''
      else ''FedRAMP Low'')"

text \<open>\<open>sep.join(xs)\<close>.\<close>

fun join :: "string \<Rightarrow> string list \<Rightarrow> string" where
  "join sep [] = []"
| "join sep [x] = x"
| "join sep (x # y # ys) = x @ sep @ join sep (y # ys)"

definition dod_il_of :: "string list \<Rightarrow> string \<Rightarrow> string \<Rightarrow> string option" where
  "dod_il_of types mission_text overall =
     (if list_ex (\<lambda>t. py_in ''classified'' t \<or> py_in ''secret'' t) types then Some ''IL6''
      else if list_ex (\<lambda>t. py_in ''cui'' t) types
              \<and> (py_in ''mission critical'' mission_text
                   \<or> py_in ''national security'' mission_text)
      then Some ''IL5''
      else if list_ex (\<lambda>t. py_in ''cui'' t) types then Some ''IL4''
      else if list_ex (\<lambda>t. py_in ''public'' t) types \<or> overall = ''low'' then Some ''IL2''
      else None)"

definition baseline_selector :: "baseline_args \<Rightarrow> baseline_result" where
  "baseline_selector args =
     (let c_rank = impact_rank (confidentiality_impact args);
          i_rank = impact_rank (integrity_impact args);
          a_rank = impact_rank (availability_impact args);
          overall_rank = max c_rank (max i_rank a_rank);
          overall = rank_to_level overall_rank;
          baseline = baseline_map overall;
          given_types = (case data_types args of None \<Rightarrow> [] | Some ts \<Rightarrow> ts);
          given_mission = (case mission args of None \<Rightarrow> [] | Some m \<Rightarrow> m);
          types = map normalize_text given_types;
          mission_text = normalize_text given_mission;
          dod_il = dod_il_of types mission_text overall;
          regs = (case regulatory_requirements args of None \<Rightarrow> [] | Some rs \<Rightarrow> rs)
      in \<lparr>fedramp_baseline = baseline,
          dod_impact_level = dod_il,
          fips_confidentiality = confidentiality_impact args,
          fips_integrity = integrity_impact args,
          fips_availability = availability_impact args,
          fips_overall = overall,
          rationale =
            [''FIPS 199 categorization: C='' @ confidentiality_impact args
               @ '', I='' @ integrity_impact args @ '', A='' @ availability_impact args,
             ''High-water mark: '' @ overall
               @ '' (highest of C/I/A determines overall impact)'',
             ''FedRAMP baseline: '' @ baseline]
            @ (case dod_il of
                 None \<Rightarrow> []
               | Some il \<Rightarrow>
                   (''DoD Impact Level: '' @ il)
                   # (if il = ''IL5'' \<or> il = ''IL6''
                      then [''Note: IL5/IL6 require DISA Cloud Computing SRG overlays beyond FedRAMP controls'']
                      else []))
            @ [''Data types: '' @ join '', '' given_types, ''Mission: '' @ given_mission]
            @ (if regs = [] then []
               else [''Regulatory requirements: '' @ join '', '' regs])\<rparr>)"

text \<open>The three impact levels and their order low < moderate < high, for stating the
  high-water mark.\<close>

datatype impact = Low | Moderate | High

fun impact_name :: "impact \<Rightarrow> string" where
  "impact_name Low = ''low''"
| "impact_name Moderate = ''moderate''"
| "impact_name High = ''high''"

fun impact_le :: "impact \<Rightarrow> impact \<Rightarrow> bool" where
  "impact_le Low y = True"
| "impact_le Moderate Low = False"
| "impact_le Moderate y = True"
| "impact_le High High = True"
| "impact_le High y = False"

definition impact_max :: "impact \<Rightarrow> impact \<Rightarrow> impact" where
  "impact_max x y = (if impact_le x y then y else x)"

section \<open>Finding generation\<close>

text \<open>
  A calendar date, as \<open>datetime\<close> holds it (the time of day does not reach the output).
  \<open>now + timedelta(days=n)\<close> is the date \<open>n\<close> days later; it raises \<open>OverflowError\<close> past
  the year 9999.
\<close>

record date =
  year :: nat
  month :: nat
  day :: nat

definition is_leap :: "nat \<Rightarrow> bool" where
  "is_leap y = (y mod 4 = 0 \<and> (y mod 100 \<noteq> 0 \<or> y mod 400 = 0))"

definition days_in_month :: "nat \<Rightarrow> nat \<Rightarrow> nat" where
  "days_in_month y m =
     (if m = 2 then (if is_leap y then 29 else 28)
      else if m = 4 \<or> m = 6 \<or> m = 9 \<or> m = 11 then 30 else 31)"

definition next_day :: "date \<Rightarrow> date" where
  "next_day d =
     (if day d < days_in_month (year d) (month d) then d\<lparr>day := day d + 1\<rparr>
      else if month d < 12 then d\<lparr>month := month d + 1, day := 1\<rparr>
      else d\<lparr>year := year d + 1, month := 1, day := 1\<rparr>)"

fun add_days :: "nat \<Rightarrow> date \<Rightarrow> date" where
  "add_days 0 d = d"
| "add_days (Suc n) d = next_day (add_days n d)"

text \<open>The dates of the calendar.\<close>

definition valid_date :: "date \<Rightarrow> bool" where
  "valid_date d =
     (1 \<le> month d \<and> month d \<le> 12 \<and> 1 \<le> day d \<and> day d \<le> days_in_month (year d) (month d))"

definition plus_timedelta :: "date \<Rightarrow> nat \<Rightarrow> py_error + date" where
  "plus_timedelta d n =
     (let r = add_days n d in if 9999 < year r then Inl OverflowError else Inr r)"

text \<open>Decimal digits: \<open>str(n)\<close>, and the zero-padded fields of \<open>strftime\<close>.\<close>

definition digit_char :: "nat \<Rightarrow> char" where
  "digit_char n = ''0123456789'' ! n"

function str_nat :: "nat \<Rightarrow> string" where
  "str_nat n = (if n < 10 then [digit_char n] else str_nat (n div 10) @ [digit_char (n mod 10)])"
  by pat_completeness auto
termination
  by (relation "measure id") auto

declare str_nat.simps [simp del]

fun zero_pad :: "nat \<Rightarrow> nat \<Rightarrow> string" where
  "zero_pad 0 n = []"
| "zero_pad (Suc k) n = zero_pad k (n div 10) @ [digit_char (n mod 10)]"

text \<open>\<open>strftime("%Y%m%d")\<close> and \<open>strftime("%Y-%m-%d")\<close>, for a year of four digits (the
  date comes from the clock).\<close>

definition strftime_compact :: "date \<Rightarrow> string" where
  "strftime_compact d = zero_pad 4 (year d) @ zero_pad 2 (month d) @ zero_pad 2 (day d)"

definition strftime_ymd :: "date \<Rightarrow> string" where
  "strftime_ymd d =
     zero_pad 4 (year d) @ ''-'' @ zero_pad 2 (month d) @ ''-'' @ zero_pad 2 (day d)"

record finding_args =
  gap_summary :: string
  risk_level :: "string option"

record milestone =
  description :: string
  due_date :: string

record poam =
  weakness_description :: string
  point_of_contact :: string
  resources_required :: string
  scheduled_completion_date :: string
  milestones :: "milestone list"
  source :: string
  status :: string
  deviation_request :: bool
  original_detection_date :: string
  vendor_dependency :: bool
  false_positive :: bool

record finding =
  finding_id :: string
  poam_required :: bool
  poam_entry :: poam
  remediation_steps :: "string list"

text \<open>\<open>{"critical": 30, "high": 90, "moderate": 180, "low": 365}.get(risk, 180)\<close>.\<close>

definition remediation_days :: "string \<Rightarrow> nat" where
  "remediation_days risk =
     (if risk = ''critical'' then 30 else if risk = ''high'' then 90
      else if risk = ''moderate'' then 180 else if risk = ''low'' then 365 else 180)"

text \<open>
  \<open>finding_generator\<close> reads the clock (\<open>datetime.now(timezone.utc)\<close>) and draws a random
  number (\<open>random.randint(100, 999)\<close>); both are arguments here. The dash in the point of
  contact is an em dash in the source, outside the characters modelled, and is written
  as a hyphen.
\<close>

definition finding_generator :: "finding_args \<Rightarrow> date \<Rightarrow> nat \<Rightarrow> py_error + finding" where
  "finding_generator args now rand =
     (let timestamp = strftime_compact now;
          date_str = strftime_ymd now;
          risk = (case risk_level args of None \<Rightarrow> ''moderate'' | Some r \<Rightarrow> r);
          days = remediation_days risk
      in case plus_timedelta now days of
           Inl e \<Rightarrow> Inl e
         | Inr completion \<Rightarrow>
             (case plus_timedelta now (days div 2) of
                Inl e \<Rightarrow> Inl e
              | Inr midpoint \<Rightarrow>
                  (let completion_date = strftime_ymd completion;
                       midpoint_date = strftime_ymd midpoint
                   in Inr
                     \<lparr>finding_id = ''F-'' @ timestamp @ ''-'' @ str_nat rand,
                      poam_required = True,
                      poam_entry =
                        \<lparr>weakness_description = gap_summary args,
                         point_of_contact = ''ISSO - to be assigned'',
                         resources_required =
                           ''Engineering and security team remediation effort'',
                         scheduled_completion_date = completion_date,
                         milestones =
                           [\<lparr>description = ''Develop remediation plan and assign resources'',
                             due_date = midpoint_date\<rparr>,
                            \<lparr>description = ''Implement remediation and validate effectiveness'',
                             due_date = completion_date\<rparr>],
                         source = ''assessment'',
                         status = ''open'',
                         deviation_request = False,
                         original_detection_date = date_str,
                         vendor_dependency = False,
                         false_positive = False\<rparr>,
                      remediation_steps =
                        [gap_summary args,
                         ''Remediation target: '' @ completion_date @ '' ('' @ str_nat days
                           @ '' days based on '' @ risk @ '' risk level).'']\<rparr>)))"

section \<open>Extraction of controls from the tables of a document\<close>

text \<open>
  A table is the list of the texts of its cells, a document the list of its tables (what
  the document reader hands over). The three patterns are matched from the start of a
  text, as \<open>re.match\<close> does. In each of them the character classes that follow one
  another are disjoint, so the greedy (or lazy) choice of the matcher is the only one.
\<close>

definition is_upper_letter :: "char \<Rightarrow> bool" where
  "is_upper_letter c = (let n = (of_char c :: nat) in 65 \<le> n \<and> n \<le> 90)"

definition is_ascii_letter :: "char \<Rightarrow> bool" where
  "is_ascii_letter c =
     (let n = (of_char c :: nat) in (65 \<le> n \<and> n \<le> 90) \<or> (97 \<le> n \<and> n \<le> 122))"

definition is_digit :: "char \<Rightarrow> bool" where
  "is_digit c = (let n = (of_char c :: nat) in 48 \<le> n \<and> n \<le> 57)"

text \<open>\<open>\d+\<close> at the start of a text: the digits and the rest, if there is a digit.\<close>

definition digits1 :: "string \<Rightarrow> (string \<times> string) option" where
  "digits1 s =
     (if takeWhile is_digit s = [] then None
      else Some (takeWhile is_digit s, dropWhile is_digit s))"

text \<open>\<open>(?:\(\d+\))?\<close>: an enhancement number in parentheses, or nothing.\<close>

definition enhancement :: "string \<Rightarrow> string \<times> string" where
  "enhancement s =
     (case s of
        [] \<Rightarrow> ([], s)
      | c # cs \<Rightarrow>
          if c = CHR ''('' then
            (case digits1 cs of
               None \<Rightarrow> ([], s)
             | Some (ds, rest) \<Rightarrow>
                 (case rest of
                    [] \<Rightarrow> ([], s)
                  | r # rs \<Rightarrow> if r = CHR '')'' then (c # ds @ [r], rs) else ([], s)))
          else ([], s))"

text \<open>The group \<open>([A-Z]{2}-\d+(?:\(\d+\))?)\<close>: the control id and the rest of the text.\<close>

definition control_id_group :: "string \<Rightarrow> (string \<times> string) option" where
  "control_id_group s =
     (case s of
        a # b # h # rest \<Rightarrow>
          if is_upper_letter a \<and> is_upper_letter b \<and> h = CHR ''-'' then
            (case digits1 rest of
               None \<Rightarrow> None
             | Some (ds, rest') \<Rightarrow>
                 (let (e, rest'') = enhancement rest' in Some (a # b # h # ds @ e, rest'')))
          else None
      | _ \<Rightarrow> None)"

text \<open>\<open>\s+\<close> followed by a literal text.\<close>

definition spaces_then :: "string \<Rightarrow> string \<Rightarrow> bool" where
  "spaces_then lit s =
     (takeWhile py_isspace s \<noteq> [] \<and> startswith (dropWhile py_isspace s) lit)"

text \<open>\<open>_CIS_HEADER_RE.match(text)\<close> and \<open>_STATEMENT_HEADER_RE.match(text)\<close>: the first group
  of the match, if the text matches.\<close>

definition header_match :: "string \<Rightarrow> string \<Rightarrow> string option" where
  "header_match lit s =
     (case control_id_group s of
        None \<Rightarrow> None
      | Some (cid, rest) \<Rightarrow> if spaces_then lit rest then Some cid else None)"

definition cis_header_match :: "string \<Rightarrow> string option" where
  "cis_header_match s = header_match ''Control Summary Information'' s"

definition statement_header_match :: "string \<Rightarrow> string option" where
  "statement_header_match s = header_match ''What is the solution'' s"

text \<open>\<open>_PART_LABEL_RE.match(text)\<close>, ignoring case: the letter of the label and the text
  after the label.\<close>

definition part_label_match :: "string \<Rightarrow> (char \<times> string) option" where
  "part_label_match s =
     (if lower (take 4 s) = ''part'' \<and> takeWhile py_isspace (drop 4 s) \<noteq> [] then
        (let r = dropWhile py_isspace (drop 4 s);
             r1 = (case r of c # cs \<Rightarrow> if c = CHR ''('' then cs else r | [] \<Rightarrow> r)
         in case r1 of
              [] \<Rightarrow> None
            | l # r2 \<Rightarrow>
                if is_ascii_letter l then
                  (let r3 = (case r2 of c # cs \<Rightarrow> if c = CHR '')'' then cs else r2 | [] \<Rightarrow> r2)
                   in case r3 of
                        [] \<Rightarrow> None
                      | c # rest \<Rightarrow> if c = CHR '':'' then Some (l, rest) else None)
                else None)
      else None)"

text \<open>\<open>text.replace(old, "")\<close> for a non-empty \<open>old\<close>: every occurrence, from the left.\<close>

fun remove_all :: "string \<Rightarrow> string \<Rightarrow> string" where
  "remove_all old [] = []"
| "remove_all old (c # cs) =
     (if old \<noteq> [] \<and> startswith (c # cs) old
      then remove_all old (drop (length old - 1) cs)
      else c # remove_all old cs)"

text \<open>\<open>re.match(r"^Parameter\s+(\S+?):\s*(.*)", trimmed)\<close>: the name is the shortest run
  of at least one character without whitespace that a colon follows, the value the rest
  of the line after the colon and any whitespace.\<close>

fun lazy_name :: "string \<Rightarrow> string \<Rightarrow> (string \<times> string) option" where
  "lazy_name acc [] = None"
| "lazy_name acc (c # cs) =
     (if c = CHR '':'' then Some (acc, cs)
      else if py_isspace c then None
      else lazy_name (acc @ [c]) cs)"

definition param_match :: "string \<Rightarrow> (string \<times> string) option" where
  "param_match s =
     (if startswith s ''Parameter'' \<and> takeWhile py_isspace (drop 9 s) \<noteq> [] then
        (case dropWhile py_isspace (drop 9 s) of
           [] \<Rightarrow> None
         | c # cs \<Rightarrow>
             (case lazy_name [c] cs of
                None \<Rightarrow> None
              | Some (name, rest) \<Rightarrow>
                  Some (name, takeWhile (\<lambda>x. x \<noteq> CHR 0x0A) (dropWhile py_isspace rest))))
      else None)"

record cis =
  cis_control_id :: string
  cis_status :: string
  cis_origination :: string
  cis_roles :: string
  cis_params :: "(string \<times> string) list"

text \<open>The loop of \<open>_parse_cis_table\<close> over all cells, the header cell included.\<close>

fun cis_fields :: "string list \<Rightarrow> cis \<Rightarrow> cis" where
  "cis_fields [] acc = acc"
| "cis_fields (text # texts) acc =
     (let trimmed = strip text in
      cis_fields texts
        (if startswith trimmed ''Responsible Role:'' then
           acc\<lparr>cis_roles := strip (remove_all ''Responsible Role:'' trimmed)\<rparr>
         else if startswith trimmed ''Implementation Status'' then
           acc\<lparr>cis_status := trimmed\<rparr>
         else if startswith trimmed ''Control Origination'' then
           acc\<lparr>cis_origination := trimmed\<rparr>
         else if startswith trimmed ''Parameter '' then
           (case param_match trimmed of
              None \<Rightarrow> acc
            | Some (name, v) \<Rightarrow> acc\<lparr>cis_params := dict_set name v (cis_params acc)\<rparr>)
         else acc))"

definition parse_cis_table :: "string list \<Rightarrow> cis option" where
  "parse_cis_table cell_texts =
     (case cell_texts of
        [] \<Rightarrow> None
      | first # _ \<Rightarrow>
          (case cis_header_match first of
             None \<Rightarrow> None
           | Some cid \<Rightarrow>
               Some (cis_fields cell_texts
                 \<lparr>cis_control_id = lower cid, cis_status = [], cis_origination = [],
                  cis_roles = [], cis_params = []\<rparr>)))"

text \<open>The loop of \<open>_parse_statement_table\<close> over the cells after the header.\<close>

fun statement_cells ::
  "string list \<Rightarrow> (string \<times> string) list \<Rightarrow> string list
     \<Rightarrow> (string \<times> string) list \<times> string list" where
  "statement_cells [] parts lines = (parts, lines)"
| "statement_cells (cell # cells) parts lines =
     (let text = strip cell in
      if text = [] then statement_cells cells parts lines
      else
        statement_cells cells
          (case part_label_match text of
             None \<Rightarrow> parts
           | Some (l, rest) \<Rightarrow> dict_set [py_lower_char l] (strip rest) parts)
          (lines @ [text]))"

definition parse_statement_table :: "string list \<Rightarrow> (string \<times> string) list \<times> string" where
  "parse_statement_table cell_texts =
     (let (parts, lines) = statement_cells (drop 1 cell_texts) [] []
      in (parts, join [CHR 0x0A] lines))"

record extracted_control =
  ec_control_id :: string
  ec_status :: string
  ec_origination :: string
  ec_roles :: string
  ec_params :: "(string \<times> string) list"
  ec_parts :: "(string \<times> string) list"
  ec_raw_narrative :: string

definition make_control ::
  "cis \<Rightarrow> (string \<times> string) list \<times> string \<Rightarrow> extracted_control" where
  "make_control c narrative =
     \<lparr>ec_control_id = cis_control_id c, ec_status = cis_status c,
      ec_origination = cis_origination c, ec_roles = cis_roles c, ec_params = cis_params c,
      ec_parts = fst narrative, ec_raw_narrative = snd narrative\<rparr>"

text \<open>\<open>next_texts and _STATEMENT_HEADER_RE.match(next_texts[0])\<close>.\<close>

definition is_statement_table :: "string list \<Rightarrow> bool" where
  "is_statement_table next_texts =
     (case next_texts of [] \<Rightarrow> False | first # _ \<Rightarrow> statement_header_match first \<noteq> None)"

text \<open>The scan of \<open>_extract_docx_controls\<close> over the tables from index \<open>i\<close> on: a table that
  is no summary table is passed over; a summary table takes the next table with it when
  that is a statement table, and the scan goes on behind what was taken.\<close>

fun extract_controls :: "string list list \<Rightarrow> extracted_control list" where
  "extract_controls [] = []"
| "extract_controls [t] =
     (case parse_cis_table t of
        None \<Rightarrow> []
      | Some c \<Rightarrow> [make_control c ([], [])])"
| "extract_controls (t # n # rest) =
     (case parse_cis_table t of
        None \<Rightarrow> extract_controls (n # rest)
      | Some c \<Rightarrow>
          if is_statement_table n
          then make_control c (parse_statement_table n) # extract_controls rest
          else make_control c ([], []) # extract_controls (n # rest))"

text \<open>The pairing the claim asks for: the statement table names the control of the summary
  table.\<close>

definition same_control :: "string list \<Rightarrow> string list \<Rightarrow> bool" where
  "same_control summary statement =
     (case (summary, statement) of
        (s # _, n # _) \<Rightarrow>
          cis_header_match s \<noteq> None \<and> cis_header_match s = statement_header_match n
      | _ \<Rightarrow> False)"

section \<open>Repeated lookups\<close>

text \<open>A second lookup in a framework reuses the document loaded by the first: it reads
  no file.\<close>

definition loaded_once :: "string \<Rightarrow> string \<Rightarrow> string \<Rightarrow> world \<Rightarrow> bool" where
  "loaded_once framework id1 id2 w =
     (let w1 = snd (control_lookup framework id1 w)
      in reads (snd (control_lookup framework id2 w1)) = reads w1)"

section \<open>Case and whitespace variants of a control id\<close>




definition example_world :: world where
  "example_world =
     \<lparr>files = (\<lambda>f.
        if f = ''nist-800-53-r5.json'' then
          Some (JObj [(''controls'', JArr
            [JObj [(''id'', JStr ''AC-1''), (''name'', JStr ''Policy and Procedures''),
                   (''requirements'', JArr [JStr ''access control policy''])],
             JObj [(''id'', JStr ''AC-2''), (''name'', JStr ''Account Management''),
                   (''requirements'', JArr [JStr ''least privilege'', JStr ''audit logging'']),
                   (''assessment_objectives'', JArr [JStr ''accounts are reviewed''])]])])
        else if f = ''cmmc-2.0-practices.json'' then
          Some (JObj [(''levels'', JArr
            [JObj [(''level'', JStr ''Level 1''), (''practices'', JArr
               [JObj [(''id'', JStr ''AC.L1-3.1.1'')], JObj [(''id'', JStr ''AC.L1-3.1.2'')]])],
             JObj [(''level'', JStr ''Level 2''), (''practices'', JArr
               [JObj [(''id'', JStr ''AC.L2-3.1.3'')], JObj [(''id'', JStr ''AC.L2-3.1.4'')],
                JObj [(''id'', JStr ''AC.L2-3.1.5'')]])]])])
        else if f = ''fedramp-baselines.json'' then
          Some (JObj [(''baselines'', JArr
            [JObj [(''baseline'', JStr ''Low''), (''description'', JStr ''low impact systems'')],
             JObj [(''baseline'', JStr ''High''), (''description'', JStr ''high impact systems'')]])])
        else None),
      reads = []\<rparr>"

text \<open>A document whose requirements are written in mixed case, with whitespace around
  them and, in the last one, a doubled space inside.\<close>

definition mixed_case_world :: world where
  "mixed_case_world =
     \<lparr>files = (\<lambda>f.
        if f = ''nist-800-53-r5.json'' then
          Some (JObj [(''controls'', JArr
            [JObj [(''id'', JStr ''AC-3''), (''name'', JStr ''Access Enforcement''),
                   (''requirements'',
                    JArr [JStr ''  Least PRIVILEGE '', JStr ''Audit Logging'',
                          JStr ''Privilege  Review''])]])])
        else None),
      reads = []\<rparr>"

section \<open>Well-formed framework documents\<close>

text \<open>
  The shape the lookup expects of a framework document. An entry is a dict whose id, when
  it has one, is a string; a level (function) is a dict whose practices (categories), when
  it has any, are a list of entries; a baseline is a dict with a string under \<open>baseline\<close>.
\<close>

fun has_text :: "string \<Rightarrow> json \<Rightarrow> bool" where
  "has_text key (JObj kvs) =
     (case map_of kvs key of None \<Rightarrow> True | Some (JStr s) \<Rightarrow> True | Some _ \<Rightarrow> False)"
| "has_text key _ = False"

fun entry_text :: "string \<Rightarrow> json \<Rightarrow> string" where
  "entry_text key (JObj kvs) = (case map_of kvs key of Some (JStr s) \<Rightarrow> s | _ \<Rightarrow> [])"
| "entry_text key _ = []"

fun wf_listing :: "(json \<Rightarrow> bool) \<Rightarrow> json option \<Rightarrow> bool" where
  "wf_listing P None = True"
| "wf_listing P (Some (JArr xs)) = list_all P xs"
| "wf_listing P (Some _) = False"

fun listing :: "json option \<Rightarrow> json list" where
  "listing (Some (JArr xs)) = xs"
| "listing _ = []"

fun wf_group :: "string \<Rightarrow> json \<Rightarrow> bool" where
  "wf_group inner (JObj kvs) = wf_listing (has_text ''id'') (map_of kvs inner)"
| "wf_group inner _ = False"

fun group_members :: "string \<Rightarrow> json \<Rightarrow> json list" where
  "group_members inner (JObj kvs) = listing (map_of kvs inner)"
| "group_members inner _ = []"

fun wf_baseline :: "json \<Rightarrow> bool" where
  "wf_baseline (JObj kvs) = (case map_of kvs ''baseline'' of Some (JStr s) \<Rightarrow> True | _ \<Rightarrow> False)"
| "wf_baseline _ = False"

fun wf_document :: "string \<Rightarrow> json \<Rightarrow> bool" where
  "wf_document framework (JObj kvs) =
     ((case map_of kvs ''controls'' of
         Some (JArr cs) \<Rightarrow> list_all (has_text ''id'') cs
       | _ \<Rightarrow> True)
      \<and> (framework = ''CMMC'' \<longrightarrow>
            wf_listing (wf_group ''practices'') (map_of kvs ''levels''))
      \<and> (framework = ''NIST AI RMF'' \<longrightarrow>
            wf_listing (wf_group ''categories'') (map_of kvs ''functions''))
      \<and> (framework = ''FedRAMP'' \<longrightarrow> wf_listing wf_baseline (map_of kvs ''baselines'')))"
| "wf_document framework _ = False"

text \<open>The ids a lookup in the document of a framework is compared with.\<close>

definition group_ids :: "string \<Rightarrow> json list \<Rightarrow> string list" where
  "group_ids inner grps =
     concat (map (\<lambda>g. map (entry_text ''id'') (group_members inner g)) grps)"

fun document_ids :: "string \<Rightarrow> json \<Rightarrow> string list" where
  "document_ids framework (JObj kvs) =
     (case map_of kvs ''controls'' of
        Some (JArr cs) \<Rightarrow> map (entry_text ''id'') cs
      | _ \<Rightarrow> [])
     @ (if framework = ''CMMC''
        then group_ids ''practices'' (listing (map_of kvs ''levels'')) else [])
     @ (if framework = ''NIST AI RMF''
        then group_ids ''categories'' (listing (map_of kvs ''functions'')) else [])
     @ (if framework = ''FedRAMP''
        then map (entry_text ''baseline'') (listing (map_of kvs ''baselines'')) else [])"
| "document_ids framework _ = []"

text \<open>The document of a known framework loads and is well-formed; an unknown framework
  has no document to load.\<close>

definition wf_framework :: "string \<Rightarrow> world \<Rightarrow> bool" where
  "wf_framework framework w =
     (case FRAMEWORK_FILES framework of
        None \<Rightarrow> True
      | Some file_name \<Rightarrow>
          (case files w file_name of None \<Rightarrow> False | Some d \<Rightarrow> wf_document framework d))"

text \<open>The framework is unknown, or no id of its document has the normal form of
  \<open>control_id\<close>.\<close>

definition unmatched :: "string \<Rightarrow> string \<Rightarrow> world \<Rightarrow> bool" where
  "unmatched framework control_id w =
     (case FRAMEWORK_FILES framework of
        None \<Rightarrow> True
      | Some file_name \<Rightarrow>
          (case files w file_name of
             None \<Rightarrow> False
           | Some d \<Rightarrow>
               normalize_text control_id \<notin> set (map normalize_text (document_ids framework d))))"

section \<open>Properties of text normalisation\<close>

lemma of_char_lower:
  assumes "has_lowercase c"
  shows "(of_char (py_lower_char c) :: nat) = of_char c + 32"
proof -
  from assms have "(of_char c :: nat) \<le> 222"
    unfolding has_lowercase_def Let_def by arith
  then have "(of_char (char_of ((of_char c :: nat) + 32)) :: nat) = of_char c + 32"
    by simp
  with assms show ?thesis by (simp add: py_lower_char_def)
qed

lemma py_isspace_lower [simp]: "py_isspace (py_lower_char c) = py_isspace c"
proof (cases "has_lowercase c")
  case True
  from of_char_lower [OF True] True show ?thesis
    unfolding py_isspace_def has_lowercase_def Let_def by arith
next
  case False
  then show ?thesis by (simp add: py_lower_char_def)
qed

lemma py_lower_char_idem [simp]: "py_lower_char (py_lower_char c) = py_lower_char c"
proof (cases "has_lowercase c")
  case True
  from of_char_lower [OF True] True have "\<not> has_lowercase (py_lower_char c)"
    unfolding has_lowercase_def Let_def by arith
  then show ?thesis by (simp add: py_lower_char_def [of "py_lower_char c"])
next
  case False
  then show ?thesis by (simp add: py_lower_char_def)
qed








section \<open>Control lookup is insensitive to case and surrounding whitespace\<close>




section \<open>Gap analysis: properties\<close>

lemma startswith_prefix: "startswith s p = prefix p s"
  by (induction s p rule: startswith.induct) auto

lemma py_in_sublist: "py_in sub s = sublist sub s"
  by (induction s) (auto simp: startswith_prefix sublist_Cons_right)

lemma heuristic_gaps_strings:
  "heuristic_gaps d (map JStr reqs)
     = Inr (map JStr (filter (\<lambda>r. \<not> sublist (lower (strip r)) d) reqs))"
  by (induction reqs) (simp_all add: py_in_sublist normalize_text_def)

text \<open>
  Claim C6. For every control that resolves to a non-empty record whose requirements are
  strings, \<open>gap_analyzer\<close> returns as \<open>heuristic_gaps\<close> exactly the requirements, in order
  and as they are written in the document, for which the requirement, stripped of
  surrounding whitespace and lower-cased, is not a contiguous part of the implementation
  text, stripped and lower-cased likewise. At requirements "least privilege", "audit
  logging" the gaps are "audit logging" alone, for the text "we enforce least privilege"
  and for "  We Enforce LEAST Privilege  " alike; a requirement written "  Least PRIVILEGE "
  is met by either text, and "Privilege  Review", with two spaces inside, is not met by
  "privilege review".
\<close>

theorem gap_analyzer_gaps:
  assumes "fst (find_control fw cid w) = Inr (Some (JObj kvs))" and "kvs \<noteq> []"
    and "dict_get (JObj kvs) ''requirements'' (JArr []) = Inr (JArr (map JStr reqs))"
  shows "fst (gap_analyzer fw cid text w) =
     Inr \<lparr>ga_control_id = cid, ga_requirements = JArr (map JStr reqs),
          ga_implementation_description = text,
          ga_heuristic_gaps = map JStr
            (filter (\<lambda>r. \<not> sublist (lower (strip r)) (lower (strip text))) reqs)\<rparr>"
proof -
  obtain w' where f: "find_control fw cid w = (Inr (Some (JObj kvs)), w')"
    using assms(1) by (cases "find_control fw cid w") simp
  have "analyze_control cid text (JObj kvs) =
     Inr \<lparr>ga_control_id = cid, ga_requirements = JArr (map JStr reqs),
          ga_implementation_description = text,
          ga_heuristic_gaps = map JStr
            (filter (\<lambda>r. \<not> sublist (lower (strip r)) (lower (strip text))) reqs)\<rparr>"
    unfolding analyze_control_def Let_def assms(3)
    by (simp add: heuristic_gaps_strings normalize_text_def)
  with assms(2) show ?thesis
    by (simp add: gap_analyzer_def f if_not_control_def)
qed

theorem gap_analyzer_gaps_witness:
  "fst (gap_analyzer ''NIST 800-53'' ''AC-2'' ''we enforce least privilege'' example_world) =
     Inr \<lparr>ga_control_id = ''AC-2'',
          ga_requirements = JArr [JStr ''least privilege'', JStr ''audit logging''],
          ga_implementation_description = ''we enforce least privilege'',
          ga_heuristic_gaps = [JStr ''audit logging'']\<rparr>
   \<and> fst (gap_analyzer ''NIST 800-53'' ''AC-2'' ''  We Enforce LEAST Privilege  ''
          example_world) =
     Inr \<lparr>ga_control_id = ''AC-2'',
          ga_requirements = JArr [JStr ''least privilege'', JStr ''audit logging''],
          ga_implementation_description = ''  We Enforce LEAST Privilege  '',
          ga_heuristic_gaps = [JStr ''audit logging'']\<rparr>
   \<and> fst (gap_analyzer ''NIST 800-53'' ''AC-3''
          (CHR 0x09 # ''we enforce least privilege; privilege review is Quarterly'')
          mixed_case_world) =
     Inr \<lparr>ga_control_id = ''AC-3'',
          ga_requirements = JArr [JStr ''  Least PRIVILEGE '', JStr ''Audit Logging'',
                                  JStr ''Privilege  Review''],
          ga_implementation_description =
            CHR 0x09 # ''we enforce least privilege; privilege review is Quarterly'',
          ga_heuristic_gaps = [JStr ''Audit Logging'', JStr ''Privilege  Review'']\<rparr>"
proof -
  have f: "fst (find_control ''NIST 800-53'' ''AC-2'' example_world)
      = Inr (Some (JObj [(''id'', JStr ''AC-2''), (''name'', JStr ''Account Management''),
                   (''requirements'', JArr [JStr ''least privilege'', JStr ''audit logging'']),
                   (''assessment_objectives'', JArr [JStr ''accounts are reviewed''])]))"
    by code_simp
  have k: "[(''id'', JStr ''AC-2''), (''name'', JStr ''Account Management''),
                   (''requirements'', JArr [JStr ''least privilege'', JStr ''audit logging'']),
                   (''assessment_objectives'', JArr [JStr ''accounts are reviewed''])] \<noteq> []"
    by simp
  have d: "dict_get (JObj [(''id'', JStr ''AC-2''), (''name'', JStr ''Account Management''),
                   (''requirements'', JArr [JStr ''least privilege'', JStr ''audit logging'']),
                   (''assessment_objectives'', JArr [JStr ''accounts are reviewed''])])
              ''requirements'' (JArr [])
           = Inr (JArr (map JStr [''least privilege'', ''audit logging'']))"
    by simp
  have g: "filter (\<lambda>r. \<not> sublist (lower (strip r)) (lower (strip ''we enforce least privilege'')))
             [''least privilege'', ''audit logging''] = [''audit logging'']"
    by code_simp
  have g': "filter (\<lambda>r. \<not> sublist (lower (strip r))
                 (lower (strip ''  We Enforce LEAST Privilege  '')))
             [''least privilege'', ''audit logging''] = [''audit logging'']"
    by code_simp
  have f3: "fst (find_control ''NIST 800-53'' ''AC-3'' mixed_case_world)
      = Inr (Some (JObj [(''id'', JStr ''AC-3''), (''name'', JStr ''Access Enforcement''),
                   (''requirements'',
                    JArr [JStr ''  Least PRIVILEGE '', JStr ''Audit Logging'',
                          JStr ''Privilege  Review''])]))"
    by code_simp
  have k3: "[(''id'', JStr ''AC-3''), (''name'', JStr ''Access Enforcement''),
                   (''requirements'',
                    JArr [JStr ''  Least PRIVILEGE '', JStr ''Audit Logging'',
                          JStr ''Privilege  Review''])] \<noteq> []"
    by simp
  have d3: "dict_get (JObj [(''id'', JStr ''AC-3''), (''name'', JStr ''Access Enforcement''),
                   (''requirements'',
                    JArr [JStr ''  Least PRIVILEGE '', JStr ''Audit Logging'',
                          JStr ''Privilege  Review''])])
              ''requirements'' (JArr [])
           = Inr (JArr (map JStr [''  Least PRIVILEGE '', ''Audit Logging'',
                                  ''Privilege  Review'']))"
    by simp
  have g3: "filter (\<lambda>r. \<not> sublist (lower (strip r))
                 (lower (strip (CHR 0x09 #
                    ''we enforce least privilege; privilege review is Quarterly''))))
             [''  Least PRIVILEGE '', ''Audit Logging'', ''Privilege  Review'']
            = [''Audit Logging'', ''Privilege  Review'']"
    by code_simp
  show ?thesis
    using gap_analyzer_gaps [OF f k d, of "''we enforce least privilege''"]
      gap_analyzer_gaps [OF f k d, of "''  We Enforce LEAST Privilege  ''"]
      gap_analyzer_gaps [OF f3 k3 d3,
        of "CHR 0x09 # ''we enforce least privilege; privilege review is Quarterly''"]
    unfolding g g' g3 by simp
qed

text \<open>
  Claim C10. When the control cannot be resolved (unknown framework, or no match in the
  document), \<open>gap_analyzer\<close> returns no distinct not-found shape: \<open>requirements\<close> is empty
  and \<open>heuristic_gaps\<close> is the one string "Control not found in data set.".
\<close>

theorem gap_analyzer_not_found:
  assumes "FRAMEWORK_FILES fw = None \<or> fst (find_control fw cid w) = Inr None
    \<or> fst (find_control fw cid w) = Inr (Some (JObj []))"
  shows "fst (gap_analyzer fw cid text w) =
     Inr \<lparr>ga_control_id = cid, ga_requirements = JArr [],
          ga_implementation_description = text,
          ga_heuristic_gaps = [JStr ''Control not found in data set.'']\<rparr>"
proof -
  from assms have "fst (find_control fw cid w) = Inr None
      \<or> fst (find_control fw cid w) = Inr (Some (JObj []))"
    by (auto simp: find_control_def)
  then obtain w' where "find_control fw cid w = (Inr None, w')
      \<or> find_control fw cid w = (Inr (Some (JObj [])), w')"
    by (cases "find_control fw cid w") auto
  then show ?thesis
    by (auto simp: gap_analyzer_def if_not_control_def)
qed

theorem gap_analyzer_not_found_witness:
  "fst (find_control ''NIST 800-53'' ''ZZ-9'' example_world) = Inr None
   \<and> fst (gap_analyzer ''NIST 800-53'' ''ZZ-9'' ''we enforce least privilege'' example_world) =
     Inr \<lparr>ga_control_id = ''ZZ-9'', ga_requirements = JArr [],
          ga_implementation_description = ''we enforce least privilege'',
          ga_heuristic_gaps = [JStr ''Control not found in data set.'']\<rparr>"
proof -
  have f: "fst (find_control ''NIST 800-53'' ''ZZ-9'' example_world) = Inr None"
    by code_simp
  from gap_analyzer_not_found [OF disjI2, OF disjI1, OF f] f show ?thesis by simp
qed

section \<open>Lookup of an unknown framework or id\<close>

lemma has_text_dict_get:
  "has_text key x \<Longrightarrow> dict_get x key (JStr []) = Inr (JStr (entry_text key x))"
  by (cases x) (auto split: option.splits json.splits)

lemma first_match_wf:
  "list_all (has_text key) xs \<Longrightarrow>
   first_match key t xs = Inr (find (\<lambda>x. normalize_text (entry_text key x) = t) xs)"
  by (induction xs) (simp_all add: has_text_dict_get)

lemma first_match_dict:
  "first_match key t xs = Inr (Some x) \<Longrightarrow> \<exists>kvs. x = JObj kvs"
proof (induction xs)
  case Nil
  then show ?case by simp
next
  case (Cons y ys)
  then show ?case
    by (cases y) (auto split: sum.splits if_splits)
qed

lemma nested_match_dict:
  "nested_match inner tag tf t grps = Inr (Some x) \<Longrightarrow> \<exists>kvs. x = JObj kvs"
proof (induction grps)
  case Nil
  then show ?case by simp
next
  case (Cons g gs)
  then show ?case
    by (auto split: sum.splits option.splits json.splits)
qed

lemma baseline_match_dict:
  "baseline_match t bs = Inr (Some x) \<Longrightarrow> \<exists>kvs. x = JObj kvs"
proof (induction bs)
  case Nil
  then show ?case by simp
next
  case (Cons b bs)
  then show ?case
    by (auto split: sum.splits option.splits json.splits if_splits)
qed

lemma for_in_dict:
  assumes "for_in data key body = Inr (Some x)"
    and "\<And>xs. body xs = Inr (Some x) \<Longrightarrow> \<exists>kvs. x = JObj kvs"
  shows "\<exists>kvs. x = JObj kvs"
  using assms by (auto simp: for_in_def split: sum.splits)

lemma or_else_Some:
  "or_else r k = Inr (Some x) \<Longrightarrow> r = Inr (Some x) \<or> (r = Inr None \<and> k = Inr (Some x))"
  by (auto simp: or_else_def split: sum.splits option.splits)

lemma find_in_document_dict:
  assumes "find_in_document fw data t = Inr (Some x)"
  shows "\<exists>kvs. x = JObj kvs"
proof -
  from assms obtain controls where c: "dict_get data ''controls'' JNull = Inr controls"
    by (auto simp: find_in_document_def split: sum.splits)
  note r = assms [unfolded find_in_document_def c, simplified]
  from or_else_Some [OF r] show ?thesis
  proof (elim disjE conjE)
    assume "(case controls of JArr cs \<Rightarrow> first_match ''id'' t cs | _ \<Rightarrow> Inr None) = Inr (Some x)"
    then show ?thesis
      by (cases controls) (auto dest: first_match_dict)
  next
    assume "or_else (if fw = ''CMMC'' then for_in data ''levels'' (nested_match ''practices'' ''level'' ''level'' t) else Inr None)
      (or_else (if fw = ''NIST AI RMF'' then for_in data ''functions'' (nested_match ''categories'' ''function'' ''id'' t) else Inr None)
         (if fw = ''FedRAMP'' then for_in data ''baselines'' (baseline_match t) else Inr None)) = Inr (Some x)"
    from or_else_Some [OF this] show ?thesis
    proof (elim disjE conjE)
      assume "(if fw = ''CMMC'' then for_in data ''levels'' (nested_match ''practices'' ''level'' ''level'' t) else Inr None) = Inr (Some x)"
      then show ?thesis
        by (auto split: if_splits elim: for_in_dict dest: nested_match_dict)
    next
      assume "or_else (if fw = ''NIST AI RMF'' then for_in data ''functions'' (nested_match ''categories'' ''function'' ''id'' t) else Inr None)
         (if fw = ''FedRAMP'' then for_in data ''baselines'' (baseline_match t) else Inr None) = Inr (Some x)"
      from or_else_Some [OF this] show ?thesis
        by (auto split: if_splits elim: for_in_dict dest: nested_match_dict baseline_match_dict)
    qed
  qed
qed

lemma find_None_iff_notin:
  "t \<notin> set (map f xs) \<Longrightarrow> find (\<lambda>x. f x = t) xs = None"
  by (induction xs) auto

lemma wf_listing_cases:
  "wf_listing P v \<Longrightarrow> v = None \<or> (\<exists>xs. v = Some (JArr xs) \<and> list_all P xs)"
  by (cases "(P, v)" rule: wf_listing.cases) simp_all

lemma wf_group_members:
  assumes "wf_group inner g"
  shows "\<exists>ms. dict_get g inner (JArr []) = Inr (JArr ms) \<and> group_members inner g = ms
           \<and> list_all (has_text ''id'') ms"
proof (cases g)
  case (JObj kvs)
  with assms have "wf_listing (has_text ''id'') (map_of kvs inner)"
    by simp
  from wf_listing_cases [OF this] JObj show ?thesis
    by auto
qed (use assms in simp_all)

lemma wf_group_tag:
  "wf_group inner g \<Longrightarrow> \<exists>v. dict_get g tf d = Inr v"
  by (cases g) simp_all

lemma nested_match_wf:
  assumes "list_all (wf_group inner) grps"
  shows "\<exists>r. nested_match inner tag tf t grps = Inr r
           \<and> (t \<notin> set (map normalize_text (group_ids inner grps)) \<longrightarrow> r = None)"
  using assms
proof (induction grps)
  case Nil
  then show ?case by simp
next
  case (Cons g gs)
  then have g: "wf_group inner g" and gs: "list_all (wf_group inner) gs"
    by simp_all
  from wf_group_members [OF g] obtain ms
    where m: "dict_get g inner (JArr []) = Inr (JArr ms)" "group_members inner g = ms"
      "list_all (has_text ''id'') ms"
    by blast
  from wf_group_tag [OF g] obtain v where v: "dict_get g tf JNull = Inr v"
    by blast
  note fm = first_match_wf [OF m(3), of t]
  show ?case
  proof (cases "find (\<lambda>x. normalize_text (entry_text ''id'' x) = t) ms")
    case None
    from Cons.IH [OF gs] obtain r where r: "nested_match inner tag tf t gs = Inr r"
      and n: "t \<notin> set (map normalize_text (group_ids inner gs)) \<longrightarrow> r = None"
      by blast
    have "nested_match inner tag tf t (g # gs) = Inr r"
      using None m fm r by simp
    moreover have "t \<notin> set (map normalize_text (group_ids inner (g # gs))) \<longrightarrow> r = None"
      using n by (simp add: group_ids_def)
    ultimately show ?thesis by blast
  next
    case (Some x)
    then have "x \<in> set ms" and hit: "normalize_text (entry_text ''id'' x) = t"
      by (auto simp: find_Some_iff)
    with m(3) have "has_text ''id'' x"
      by (simp add: list_all_iff)
    then obtain kvs where "x = JObj kvs"
      by (cases x) simp_all
    moreover from \<open>x \<in> set ms\<close> hit m(2)
    have "t \<in> set (map normalize_text (group_ids inner (g # gs)))"
      by (auto simp: group_ids_def)
    ultimately show ?thesis
      using Some m fm v by simp
  qed
qed

lemma wf_baseline_get:
  assumes "wf_baseline b"
  shows "\<exists>kvs s. b = JObj kvs \<and> map_of kvs ''baseline'' = Some (JStr s)
           \<and> entry_text ''baseline'' b = s"
proof (cases b)
  case (JObj kvs)
  with assms show ?thesis
    by (auto split: option.splits json.splits)
qed (use assms in simp_all)

lemma baseline_match_wf:
  assumes "list_all wf_baseline bs"
  shows "\<exists>r. baseline_match t bs = Inr r
           \<and> (t \<notin> set (map normalize_text (map (entry_text ''baseline'') bs)) \<longrightarrow> r = None)"
  using assms
proof (induction bs)
  case Nil
  then show ?case by simp
next
  case (Cons b bs)
  then have b: "wf_baseline b" and bs: "list_all wf_baseline bs"
    by simp_all
  from wf_baseline_get [OF b] obtain kvs s
    where k: "b = JObj kvs" "map_of kvs ''baseline'' = Some (JStr s)"
      "entry_text ''baseline'' b = s"
    by blast
  from Cons.IH [OF bs] k show ?case
    by auto
qed

lemma for_in_wf:
  "wf_listing P (map_of kvs key) \<Longrightarrow>
   for_in (JObj kvs) key body = body (listing (map_of kvs key))"
  by (drule wf_listing_cases) (auto simp: for_in_def)

lemma or_else_Inr:
  assumes "\<exists>r. a = Inr r \<and> (p \<longrightarrow> r = None)" and "\<exists>r. b = Inr r \<and> (q \<longrightarrow> r = None)"
  shows "\<exists>r. or_else a b = Inr r \<and> (p \<and> q \<longrightarrow> r = None)"
  using assms by (auto simp: or_else_def split: option.splits)

lemma find_in_document_wf:
  assumes "wf_document fw d"
  shows "\<exists>r. find_in_document fw d t = Inr r
           \<and> (t \<notin> set (map normalize_text (document_ids fw d)) \<longrightarrow> r = None)"
proof -
  from assms obtain kvs where d: "d = JObj kvs"
    by (cases d) simp_all
  define controls where "controls = (case map_of kvs ''controls'' of None \<Rightarrow> JNull | Some v \<Rightarrow> v)"
  define ids1 where "ids1 = (case map_of kvs ''controls'' of
        Some (JArr cs) \<Rightarrow> map (entry_text ''id'') cs | _ \<Rightarrow> [])"
  define ids2 where "ids2 = (if fw = ''CMMC''
        then group_ids ''practices'' (listing (map_of kvs ''levels'')) else [])"
  define ids3 where "ids3 = (if fw = ''NIST AI RMF''
        then group_ids ''categories'' (listing (map_of kvs ''functions'')) else [])"
  define ids4 where "ids4 = (if fw = ''FedRAMP''
        then map (entry_text ''baseline'') (listing (map_of kvs ''baselines'')) else [])"
  have ids: "document_ids fw d = ids1 @ ids2 @ ids3 @ ids4"
    by (simp add: d ids1_def ids2_def ids3_def ids4_def)
  have a: "\<exists>r. (case controls of JArr cs \<Rightarrow> first_match ''id'' t cs | _ \<Rightarrow> Inr None) = Inr r
             \<and> (t \<notin> set (map normalize_text ids1) \<longrightarrow> r = None)"
  proof (cases "\<exists>cs. map_of kvs ''controls'' = Some (JArr cs)")
    case True
    then obtain cs where cs: "map_of kvs ''controls'' = Some (JArr cs)"
      by blast
    with assms d have "list_all (has_text ''id'') cs"
      by simp
    from first_match_wf [OF this, of t] cs show ?thesis
      by (simp add: controls_def ids1_def find_None_iff_notin comp_def)
  next
    case False
    then show ?thesis
      by (auto simp: controls_def split: option.splits json.splits)
  qed
  have b: "\<exists>r. (if fw = ''CMMC''
                then for_in d ''levels'' (nested_match ''practices'' ''level'' ''level'' t)
                else Inr None) = Inr r
             \<and> (t \<notin> set (map normalize_text ids2) \<longrightarrow> r = None)"
  proof (cases "fw = ''CMMC''")
    case True
    with assms d have w: "wf_listing (wf_group ''practices'') (map_of kvs ''levels'')"
      by simp
    then have "list_all (wf_group ''practices'') (listing (map_of kvs ''levels''))"
      by (auto dest: wf_listing_cases)
    from nested_match_wf [OF this, of "''level''" "''level''" t] True show ?thesis
      by (simp add: d for_in_wf [OF w] ids2_def)
  qed simp
  have c: "\<exists>r. (if fw = ''NIST AI RMF''
                then for_in d ''functions'' (nested_match ''categories'' ''function'' ''id'' t)
                else Inr None) = Inr r
             \<and> (t \<notin> set (map normalize_text ids3) \<longrightarrow> r = None)"
  proof (cases "fw = ''NIST AI RMF''")
    case True
    with assms d have w: "wf_listing (wf_group ''categories'') (map_of kvs ''functions'')"
      by simp
    then have "list_all (wf_group ''categories'') (listing (map_of kvs ''functions''))"
      by (auto dest: wf_listing_cases)
    from nested_match_wf [OF this, of "''function''" "''id''" t] True show ?thesis
      by (simp add: d for_in_wf [OF w] ids3_def)
  qed simp
  have e: "\<exists>r. (if fw = ''FedRAMP'' then for_in d ''baselines'' (baseline_match t)
                else Inr None) = Inr r
             \<and> (t \<notin> set (map normalize_text ids4) \<longrightarrow> r = None)"
  proof (cases "fw = ''FedRAMP''")
    case True
    with assms d have w: "wf_listing wf_baseline (map_of kvs ''baselines'')"
      by simp
    then have "list_all wf_baseline (listing (map_of kvs ''baselines''))"
      by (auto dest: wf_listing_cases)
    from baseline_match_wf [OF this, of t] True show ?thesis
      by (simp add: d for_in_wf [OF w] ids4_def)
  qed simp
  have g: "dict_get d ''controls'' JNull = Inr controls"
    by (simp add: d controls_def)
  from or_else_Inr [OF a or_else_Inr [OF b or_else_Inr [OF c e]]]
  show ?thesis
    unfolding find_in_document_def g ids by auto
qed

lemma control_fields_dict: "\<exists>r. control_fields fw cid (JObj kvs) = Inr r"
  by (simp add: control_fields_def)

lemma find_control_wf:
  assumes "wf_framework fw w"
  shows "\<exists>r. fst (find_control fw cid w) = Inr r
           \<and> (unmatched fw cid w \<longrightarrow> r = None)
           \<and> (\<forall>c. r = Some c \<longrightarrow> (\<exists>kvs. c = JObj kvs))"
proof (cases "FRAMEWORK_FILES fw")
  case None
  then show ?thesis by (simp add: find_control_def)
next
  case (Some file_name)
  with assms obtain d where d: "files w file_name = Some d" and wf: "wf_document fw d"
    by (auto simp: wf_framework_def split: option.splits)
  have f: "fst (find_control fw cid w) = find_in_document fw d (normalize_text cid)"
    by (simp add: find_control_def Some load_framework_data_def load_json_def d)
  from find_in_document_wf [OF wf, of "normalize_text cid"] obtain r
    where r: "find_in_document fw d (normalize_text cid) = Inr r"
      and n: "normalize_text cid \<notin> set (map normalize_text (document_ids fw d)) \<longrightarrow> r = None"
    by blast
  have "\<exists>kvs. c = JObj kvs" if "r = Some c" for c
    using find_in_document_dict [of fw d "normalize_text cid" c] r that by simp
  with r n show ?thesis
    by (simp add: f unmatched_def Some d)
qed

text \<open>
  Claim C7. For every framework name and control id: with an unknown framework
  \<open>control_lookup\<close> returns the not-found record (name \<open>None\<close>, no requirements) whatever
  the data files hold; and when the document of the framework loads and is well-formed,
  \<open>control_lookup\<close> returns a value (it raises nothing), which is the not-found record
  when no id of the document matches.
\<close>

theorem control_lookup_not_found:
  "(FRAMEWORK_FILES fw = None \<longrightarrow> fst (control_lookup fw cid w) = Inr (not_found fw cid))
   \<and> (wf_framework fw w \<longrightarrow>
        (\<exists>r. fst (control_lookup fw cid w) = Inr r)
        \<and> (unmatched fw cid w \<longrightarrow> fst (control_lookup fw cid w) = Inr (not_found fw cid)))"
proof (intro conjI impI)
  assume "FRAMEWORK_FILES fw = None"
  then show "fst (control_lookup fw cid w) = Inr (not_found fw cid)"
    by (simp add: control_lookup_def find_control_def if_not_control_def)
next
  assume "wf_framework fw w"
  from find_control_wf [OF this, of cid] obtain r
    where r: "fst (find_control fw cid w) = Inr r"
      and n: "unmatched fw cid w \<longrightarrow> r = None"
      and k: "\<forall>c. r = Some c \<longrightarrow> (\<exists>kvs. c = JObj kvs)"
    by blast
  obtain w' where f: "find_control fw cid w = (Inr r, w')"
    using r by (cases "find_control fw cid w") simp
  show "\<exists>r. fst (control_lookup fw cid w) = Inr r"
  proof (cases r)
    case None
    then show ?thesis by (simp add: control_lookup_def f if_not_control_def)
  next
    case (Some c)
    with k obtain kvs where "c = JObj kvs" by blast
    with Some control_fields_dict [of fw cid kvs] show ?thesis
      by (auto simp: control_lookup_def f if_not_control_def)
  qed
  show "fst (control_lookup fw cid w) = Inr (not_found fw cid)" if "unmatched fw cid w"
    using that n by (simp add: control_lookup_def f if_not_control_def)
qed

theorem control_lookup_not_found_witness:
  "FRAMEWORK_FILES ''HIPAA'' = None
   \<and> fst (control_lookup ''HIPAA'' ''AC-2'' example_world) = Inr (not_found ''HIPAA'' ''AC-2'')
   \<and> wf_framework ''NIST 800-53'' example_world
   \<and> unmatched ''NIST 800-53'' ''ZZ-9'' example_world
   \<and> fst (control_lookup ''NIST 800-53'' ''ZZ-9'' example_world)
       = Inr \<lparr>lr_framework = ''NIST 800-53'', lr_control_id = JStr ''ZZ-9'',
               lr_control_name = JNull, lr_requirements = JArr [],
               lr_assessment_objectives = JArr []\<rparr>"
proof -
  have a: "FRAMEWORK_FILES ''HIPAA'' = None"
    by code_simp
  have b: "wf_framework ''NIST 800-53'' example_world"
    by code_simp
  have c: "unmatched ''NIST 800-53'' ''ZZ-9'' example_world"
    by code_simp
  from control_lookup_not_found [of "''HIPAA''" "''AC-2''" example_world]
    control_lookup_not_found [of "''NIST 800-53''" "''ZZ-9''" example_world] a b c
  show ?thesis by (simp add: not_found_def)
qed

section \<open>Every lookup reads the framework file\<close>

lemma find_control_reads:
  "reads (snd (find_control fw cid w))
     = reads w @ (case FRAMEWORK_FILES fw of None \<Rightarrow> [] | Some f \<Rightarrow> [f])
   \<and> files (snd (find_control fw cid w)) = files w"
  by (simp add: find_control_def load_framework_data_def load_json_def
      split: option.splits sum.splits)

text \<open>
  Claim C9, as stated, at a concrete input: after a first lookup in NIST 800-53 a second
  lookup in the same framework reads the file again, so the document was not kept.
\<close>

theorem loaded_once_counterexample:
  "\<not> loaded_once ''NIST 800-53'' ''AC-1'' ''AC-2'' example_world"
  by code_simp

text \<open>
  Claim C9, amended. There is no cache: every lookup in a known framework reads the file
  of the framework once more, a lookup in an unknown framework reads nothing, and no
  lookup changes what the files hold. The loader has no other state, so there is no cache
  that could be seen partly filled.
\<close>

theorem lookup_reads_every_time:
  "reads (snd (control_lookup fw cid w))
     = reads w @ (case FRAMEWORK_FILES fw of None \<Rightarrow> [] | Some f \<Rightarrow> [f])
   \<and> files (snd (control_lookup fw cid w)) = files w"
proof -
  have "snd (control_lookup fw cid w) = snd (find_control fw cid w)"
    by (cases "find_control fw cid w") (auto simp: control_lookup_def split: sum.splits)
  then show ?thesis
    by (simp add: find_control_reads)
qed

section \<open>The CMMC level check is monotonic\<close>

lemma missing_practices_mono:
  assumes "set impl \<subseteq> set impl'"
  shows "case missing_practices impl ps of
           Inl e \<Rightarrow> missing_practices impl' ps = Inl e
         | Inr m \<Rightarrow> (\<exists>m'. missing_practices impl' ps = Inr m' \<and> length m' \<le> length m)"
proof (induction ps)
  case Nil
  then show ?case by simp
next
  case (Cons p ps)
  show ?case
  proof (cases "dict_get p ''id'' (JStr [])")
    case (Inl e)
    then show ?thesis by simp
  next
    case (Inr v)
    show ?thesis
    proof (cases "normalize_json v")
      case (Inl e)
      with Inr show ?thesis by simp
    next
      case n: (Inr n)
      from Cons.IH assms Inr n show ?thesis
        by (cases "missing_practices impl ps") auto
    qed
  qed
qed

lemma level_missing_mono:
  assumes "set impl \<subseteq> set impl'"
  shows "case level_missing impl l of
           Inl e \<Rightarrow> level_missing impl' l = Inl e
         | Inr m \<Rightarrow> (\<exists>m'. level_missing impl' l = Inr m' \<and> length m' \<le> length m)"
proof (cases "dict_get l ''practices'' (JArr [])")
  case (Inl e)
  then show ?thesis by (simp add: level_missing_def)
next
  case (Inr practices)
  show ?thesis
  proof (cases "py_iter practices")
    case (Inl e)
    with Inr show ?thesis by (simp add: level_missing_def)
  next
    case ps: (Inr ps)
    from missing_practices_mono [OF assms, of ps] Inr ps show ?thesis
      by (auto simp: level_missing_def split: sum.splits)
  qed
qed

lemma level_complete_mono:
  "set impl \<subseteq> set impl' \<Longrightarrow> level_complete impl l \<Longrightarrow> level_complete impl' l"
  using level_missing_mono [of impl impl' l] by (auto simp: level_complete_def)

lemma missing_count_mono:
  "set impl \<subseteq> set impl' \<Longrightarrow> missing_count impl' l \<le> missing_count impl l"
  using level_missing_mono [of impl impl' l]
  by (cases "level_missing impl l") (auto simp: missing_count_def)

lemma length_takeWhile_mono:
  "(\<And>x. P x \<Longrightarrow> Q x) \<Longrightarrow> length (takeWhile P xs) \<le> length (takeWhile Q xs)"
  by (induction xs) auto

text \<open>What a walk that returns has computed.\<close>

lemma walk_levels_result:
  assumes "walk_levels impl ls a = Inr (x, g)"
  shows "x = label_after a ls (length (takeWhile (level_complete impl) ls))
    \<and> g = (case dropWhile (level_complete impl) ls of [] \<Rightarrow> 0 | l # _ \<Rightarrow> missing_count impl l)"
  using assms
proof (induction ls arbitrary: a)
  case Nil
  then show ?case by simp
next
  case (Cons l ls)
  from Cons.prems obtain m where m: "level_missing impl l = Inr m"
    by (cases "level_missing impl l") simp_all
  show ?case
  proof (cases "m = []")
    case True
    with Cons.prems m obtain a' where a': "dict_get l ''level'' (JStr ''None'') = Inr a'"
      and w: "walk_levels impl ls a' = Inr (x, g)"
      by (cases "dict_get l ''level'' (JStr ''None'')") simp_all
    from Cons.IH [OF w] True m a' show ?thesis
      by (simp add: level_complete_def)
  next
    case False
    with Cons.prems m show ?thesis
      by (simp add: level_complete_def missing_count_def)
  qed
qed

lemma implemented_ids_Cons:
  assumes "implemented_ids (x # xs) = Inr a"
  shows "\<exists>c a'. implemented_ids [x] = Inr c \<and> implemented_ids xs = Inr a' \<and> a = c @ a'"
  using assms by (auto split: sum.splits if_splits)

lemma implemented_ids_member:
  assumes "implemented_ids ys = Inr b" and "x \<in> set ys" and "implemented_ids [x] = Inr c"
  shows "set c \<subseteq> set b"
  using assms
proof (induction ys arbitrary: b)
  case Nil
  then show ?case by simp
next
  case (Cons y ys)
  from implemented_ids_Cons [OF Cons.prems(1)] obtain d b'
    where d: "implemented_ids [y] = Inr d" and b': "implemented_ids ys = Inr b'"
      and b: "b = d @ b'"
    by blast
  show ?case
  proof (cases "x = y")
    case True
    with d Cons.prems(3) b show ?thesis by simp
  next
    case False
    with Cons.prems(2) have "x \<in> set ys" by simp
    from Cons.IH [OF b' this Cons.prems(3)] b show ?thesis by auto
  qed
qed

lemma implemented_ids_mono:
  assumes "implemented_ids xs = Inr a" and "implemented_ids ys = Inr b"
    and "set xs \<subseteq> set ys"
  shows "set a \<subseteq> set b"
  using assms
proof (induction xs arbitrary: a)
  case Nil
  then show ?case by simp
next
  case (Cons x xs)
  from implemented_ids_Cons [OF Cons.prems(1)] obtain c a'
    where c: "implemented_ids [x] = Inr c" and a': "implemented_ids xs = Inr a'"
      and a: "a = c @ a'"
    by blast
  from Cons.prems(3) have x: "x \<in> set ys" and xs: "set xs \<subseteq> set ys"
    by simp_all
  from implemented_ids_member [OF Cons.prems(2) x c] Cons.IH [OF a' Cons.prems(2) xs] a
  show ?case by simp
qed

lemma cmmc_level_checker_result:
  assumes "fst (cmmc_level_checker impls w) = Inr r"
  shows "implemented_ids impls = Inr (implemented_of impls)
    \<and> cl_level r = level_label w (levels_achieved impls w)
    \<and> cl_gaps_to_next_level r =
        (case dropWhile (level_complete (implemented_of impls)) (cmmc_levels w) of
           [] \<Rightarrow> 0 | l # _ \<Rightarrow> missing_count (implemented_of impls) l)"
proof -
  have ff: "FRAMEWORK_FILES ''CMMC'' = Some ''cmmc-2.0-practices.json''"
    by (simp add: FRAMEWORK_FILES_def)
  from assms obtain data where d: "files w ''cmmc-2.0-practices.json'' = Some data"
    and c: "check_levels impls data = Inr r"
    by (auto simp: cmmc_level_checker_def ff load_framework_data_def load_json_def
        split: option.splits)
  from c obtain impl where i: "implemented_ids impls = Inr impl"
    by (cases "implemented_ids impls") (simp_all add: check_levels_def)
  from c i obtain ls where l: "dict_get data ''levels'' (JArr []) = Inr ls"
    by (cases "dict_get data ''levels'' (JArr [])") (simp_all add: check_levels_def)
  from c i l obtain levels where v: "py_iter ls = Inr levels"
    by (cases "py_iter ls") (simp_all add: check_levels_def)
  from c i l v have w: "walk_levels impl levels (JStr ''None'')
      = Inr (cl_level r, cl_gaps_to_next_level r)"
    by (cases "walk_levels impl levels (JStr ''None'')")
       (auto simp: check_levels_def)
  have e: "impl = implemented_of impls" "levels = cmmc_levels w"
    by (simp_all add: implemented_of_def i cmmc_levels_def d l v)
  from walk_levels_result [OF w] i show ?thesis
    unfolding e level_label_def levels_achieved_def by simp
qed

text \<open>
  Claim C3. \<open>cmmc_level_checker\<close> is monotonic. Let the implementations grow (every item
  of the first list is in the second, as when one practice is added as implemented or
  satisfied) and let both checks return. The level returned is the label of the rank
  achieved, the number of leading levels with no missing practice; that rank never
  decreases; while the rank stays the same \<open>gaps_to_next_level\<close> never increases; and the
  number of missing practices of any one level never increases. (When the rank rises the
  gaps are those of a later level and may be larger, as in the example that follows.)
\<close>

theorem cmmc_level_checker_monotonic:
  assumes "set impls \<subseteq> set impls'"
    and "fst (cmmc_level_checker impls w) = Inr r"
    and "fst (cmmc_level_checker impls' w) = Inr r'"
  shows "cl_level r = level_label w (levels_achieved impls w)
    \<and> cl_level r' = level_label w (levels_achieved impls' w)
    \<and> levels_achieved impls w \<le> levels_achieved impls' w
    \<and> (levels_achieved impls' w = levels_achieved impls w
         \<longrightarrow> cl_gaps_to_next_level r' \<le> cl_gaps_to_next_level r)
    \<and> (\<forall>level. missing_count (implemented_of impls') level
           \<le> missing_count (implemented_of impls) level)"
proof -
  note a = cmmc_level_checker_result [OF assms(2)]
  note b = cmmc_level_checker_result [OF assms(3)]
  let ?i = "implemented_of impls" and ?j = "implemented_of impls'"
  let ?P = "level_complete ?i" and ?Q = "level_complete ?j"
  from a b assms(1) have sub: "set ?i \<subseteq> set ?j"
    by (intro implemented_ids_mono [of impls _ impls']) simp_all
  have le: "levels_achieved impls w \<le> levels_achieved impls' w"
    unfolding levels_achieved_def
    by (rule length_takeWhile_mono) (rule level_complete_mono [OF sub])
  have "cl_gaps_to_next_level r' \<le> cl_gaps_to_next_level r"
    if "levels_achieved impls' w = levels_achieved impls w"
  proof -
    from that have "dropWhile ?Q (cmmc_levels w) = dropWhile ?P (cmmc_levels w)"
      by (simp add: dropWhile_eq_drop levels_achieved_def)
    with a b missing_count_mono [OF sub] show ?thesis
      by (cases "dropWhile ?P (cmmc_levels w)") simp_all
  qed
  with a b le missing_count_mono [OF sub] show ?thesis by simp
qed

theorem cmmc_level_checker_monotonic_witness:
  "fst (cmmc_level_checker
      [JObj [(''control_id'', JStr ''ac.l1-3.1.1''), (''status'', JStr ''Implemented'')]]
      example_world)
     = Inr \<lparr>cl_level = JStr ''None'', cl_gaps_to_next_level = 1\<rparr>
   \<and> fst (cmmc_level_checker
      [JObj [(''control_id'', JStr ''ac.l1-3.1.1''), (''status'', JStr ''Implemented'')],
       JObj [(''control_id'', JStr '' AC.L1-3.1.2''), (''status'', JStr ''satisfied'')]]
      example_world)
     = Inr \<lparr>cl_level = JStr ''Level 1'', cl_gaps_to_next_level = 3\<rparr>
   \<and> levels_achieved
      [JObj [(''control_id'', JStr ''ac.l1-3.1.1''), (''status'', JStr ''Implemented'')]]
      example_world = 0
   \<and> levels_achieved
      [JObj [(''control_id'', JStr ''ac.l1-3.1.1''), (''status'', JStr ''Implemented'')],
       JObj [(''control_id'', JStr '' AC.L1-3.1.2''), (''status'', JStr ''satisfied'')]]
      example_world = 1
   \<and> level_label example_world 0 = JStr ''None''
   \<and> level_label example_world 1 = JStr ''Level 1''"
proof -
  let ?a = "JObj [(''control_id'', JStr ''ac.l1-3.1.1''), (''status'', JStr ''Implemented'')]"
  let ?b = "JObj [(''control_id'', JStr '' AC.L1-3.1.2''), (''status'', JStr ''satisfied'')]"
  have s: "set [?a] \<subseteq> set [?a, ?b]"
    by simp
  have r: "fst (cmmc_level_checker [?a] example_world)
      = Inr \<lparr>cl_level = JStr ''None'', cl_gaps_to_next_level = 1\<rparr>"
    by code_simp
  have r': "fst (cmmc_level_checker [?a, ?b] example_world)
      = Inr \<lparr>cl_level = JStr ''Level 1'', cl_gaps_to_next_level = 3\<rparr>"
    by code_simp
  have k: "levels_achieved [?a] example_world = 0"
    by code_simp
  have k': "levels_achieved [?a, ?b] example_world = 1"
    by code_simp
  from cmmc_level_checker_monotonic [OF s r r'] r r' k k'
  show ?thesis by simp
qed

section \<open>The high-water mark of baseline selection\<close>

text \<open>
  Claim C4. For all 27 combinations of the three impacts drawn from low, moderate and
  high, \<open>baseline_selector\<close> returns as overall categorisation the greatest of the three
  under the order low < moderate < high, whatever the other arguments are.
\<close>

theorem baseline_selector_high_water_mark:
  "fips_overall (baseline_selector
      (args\<lparr>confidentiality_impact := impact_name c, integrity_impact := impact_name i,
            availability_impact := impact_name a\<rparr>))
   = impact_name (impact_max c (impact_max i a))"
  by (cases c; cases i; cases a)
     (simp_all add: baseline_selector_def Let_def impact_rank_def rank_to_level_def impact_max_def)

section \<open>Remediation timeline of a finding\<close>

lemma year_next_day: "year d \<le> year (next_day d)"
  by (simp add: next_day_def)

lemma valid_next_day: "valid_date d \<Longrightarrow> valid_date (next_day d)"
  by (auto simp: valid_date_def next_day_def days_in_month_def)

lemma valid_add_days: "valid_date d \<Longrightarrow> valid_date (add_days n d)"
  by (induction n) (simp_all add: valid_next_day)

lemma add_days_add: "add_days (m + n) d = add_days m (add_days n d)"
  by (induction m) simp_all

lemma year_add_days_mono: "k \<le> n \<Longrightarrow> year (add_days k d) \<le> year (add_days n d)"
proof (induction n)
  case 0
  then show ?case by simp
next
  case (Suc n)
  show ?case
  proof (cases "k = Suc n")
    case True
    then show ?thesis by simp
  next
    case False
    with Suc.prems have "k \<le> n" by simp
    from Suc.IH [OF this] year_next_day [of "add_days n d"] show ?thesis
      by simp
  qed
qed

lemma plus_timedelta_ok:
  "year (add_days n d) \<le> 9999 \<Longrightarrow> k \<le> n \<Longrightarrow> plus_timedelta d k = Inr (add_days k d)"
  using year_add_days_mono [of k n d] by (simp add: plus_timedelta_def Let_def)

text \<open>
  Claim C5. For the risk levels critical, high, moderate and low, with \<open>n\<close> = 30, 90,
  180 and 365 days: unless the completion date falls past the year 9999,
  \<open>finding_generator\<close> returns a finding whose detection date is the current date, whose
  scheduled completion date is the date \<open>n\<close> days later, and whose two milestones are due
  \<open>n div 2\<close> days (15, 45, 90 and 182) and \<open>n\<close> days after the current date.
\<close>

theorem finding_generator_timeline:
  assumes "(risk, n) \<in> set [(''critical'', 30), (''high'', 90), (''moderate'', 180), (''low'', 365)]"
    and "year (add_days n now) \<le> 9999"
  shows "\<exists>r. finding_generator \<lparr>gap_summary = g, risk_level = Some risk\<rparr> now rand = Inr r
     \<and> original_detection_date (poam_entry r) = strftime_ymd now
     \<and> scheduled_completion_date (poam_entry r) = strftime_ymd (add_days n now)
     \<and> map due_date (milestones (poam_entry r))
         = [strftime_ymd (add_days (n div 2) now), strftime_ymd (add_days n now)]"
proof -
  from assms(1) have n: "remediation_days risk = n"
    by (auto simp: remediation_days_def)
  have a: "plus_timedelta now n = Inr (add_days n now)"
    by (rule plus_timedelta_ok [OF assms(2)]) simp
  have b: "plus_timedelta now (n div 2) = Inr (add_days (n div 2) now)"
    by (rule plus_timedelta_ok [OF assms(2)]) simp
  show ?thesis
    by (simp add: finding_generator_def Let_def n a b)
qed

lemma add_days_numeral:
  "add_days (numeral k) d = next_day (add_days (pred_numeral k) d)"
  unfolding numeral_eq_Suc [of k] by simp

lemma zero_pad_numeral:
  "zero_pad (numeral k) n = zero_pad (pred_numeral k) (n div 10) @ [digit_char (n mod 10)]"
  unfolding numeral_eq_Suc [of k] by simp

lemmas date_eval =
  add_days_numeral next_day_def days_in_month_def is_leap_def
  strftime_ymd_def strftime_compact_def zero_pad_numeral digit_char_def

theorem finding_generator_timeline_witness:
  "year (add_days 30 \<lparr>year = 2024, month = 2, day = 15\<rparr>) \<le> 9999
   \<and> (\<exists>r. finding_generator \<lparr>gap_summary = ''MFA missing'', risk_level = Some ''critical''\<rparr>
            \<lparr>year = 2024, month = 2, day = 15\<rparr> 417 = Inr r
      \<and> original_detection_date (poam_entry r) = ''2024-02-15''
      \<and> scheduled_completion_date (poam_entry r) = ''2024-03-16''
      \<and> map due_date (milestones (poam_entry r)) = [''2024-03-01'', ''2024-03-16''])"
proof -
  let ?d = "\<lparr>year = 2024, month = 2, day = 15\<rparr>"
  have m: "(''critical'', 30) \<in> set [(''critical'', 30), (''high'', 90), (''moderate'', 180), (''low'', 365::nat)]"
    by simp
  have a: "add_days 30 ?d = \<lparr>year = 2024, month = 3, day = 16\<rparr>"
    by (simp add: date_eval)
  have b: "add_days (30 div 2) ?d = \<lparr>year = 2024, month = 3, day = 1\<rparr>"
    by (simp add: date_eval)
  have y: "year (add_days 30 ?d) \<le> 9999"
    unfolding a by simp
  have s0: "strftime_ymd ?d = ''2024-02-15''"
    by (simp add: date_eval)
  have s1: "strftime_ymd (add_days 30 ?d) = ''2024-03-16''"
    unfolding a by (simp add: date_eval)
  have s2: "strftime_ymd (add_days (30 div 2) ?d) = ''2024-03-01''"
    unfolding b by (simp add: date_eval)
  from finding_generator_timeline [OF m y, of "''MFA missing''" 417] y
  show ?thesis unfolding s0 s1 s2 by simp
qed

section \<open>What a finding depends on\<close>

lemma finding_id_of:
  "finding_generator args now rand = Inr r \<Longrightarrow>
   finding_id r = ''F-'' @ strftime_compact now @ ''-'' @ str_nat rand"
  by (auto simp: finding_generator_def Let_def split: sum.splits)

text \<open>
  Claim C8, as stated, at a concrete input: two invocations of \<open>finding_generator\<close> with
  identical arguments, on the same day, return different findings when the random draw
  differs.
\<close>

theorem finding_generator_counterexample:
  "finding_generator \<lparr>gap_summary = ''MFA missing'', risk_level = Some ''high''\<rparr>
      \<lparr>year = 2024, month = 2, day = 15\<rparr> 100
   \<noteq> finding_generator \<lparr>gap_summary = ''MFA missing'', risk_level = Some ''high''\<rparr>
      \<lparr>year = 2024, month = 2, day = 15\<rparr> 101"
proof
  let ?a = "\<lparr>gap_summary = ''MFA missing'', risk_level = Some ''high''\<rparr>"
  let ?d = "\<lparr>year = 2024, month = 2, day = 15\<rparr>"
  assume eq: "finding_generator ?a ?d 100 = finding_generator ?a ?d 101"
  have p: "plus_timedelta ?d 90 = Inr \<lparr>year = 2024, month = 5, day = 15\<rparr>"
    by (simp add: plus_timedelta_def date_eval)
  have q: "plus_timedelta ?d 45 = Inr \<lparr>year = 2024, month = 3, day = 31\<rparr>"
    by (simp add: plus_timedelta_def date_eval)
  obtain r where r: "finding_generator ?a ?d 100 = Inr r"
    by (simp add: finding_generator_def Let_def remediation_days_def p q)
  from finding_id_of [OF r] finding_id_of [OF r [unfolded eq]]
  have "str_nat 100 = str_nat 101"
    by simp
  moreover have "str_nat 100 = ''100''"
    by (simp add: str_nat.simps [of 100] str_nat.simps [of 10] str_nat.simps [of 1]
        str_nat.simps [of "Suc 0"] digit_char_def)
  moreover have "str_nat 101 = ''101''"
    by (simp add: str_nat.simps [of 101] str_nat.simps [of 10] str_nat.simps [of 1]
        str_nat.simps [of "Suc 0"] digit_char_def)
  ultimately show False by simp
qed

text \<open>
  Claim C8, amended. A finding is a function of the arguments, the current date and the
  random draw: two invocations with identical arguments on the same date return the same
  result (the same error, or the same finding) in everything but \<open>finding_id\<close>.
\<close>

theorem finding_generator_up_to_id:
  "map_sum id (\<lambda>r. r\<lparr>finding_id := []\<rparr>) (finding_generator args now rand1)
   = map_sum id (\<lambda>r. r\<lparr>finding_id := []\<rparr>) (finding_generator args now rand2)"
  by (simp add: finding_generator_def Let_def split: sum.splits)

section \<open>Pairing of summary and statement tables\<close>

lemma startswith_Cons:
  "startswith s (c # lit) \<Longrightarrow> \<exists>rest. s = c # rest"
  by (cases s) simp_all

text \<open>A statement table is no summary table, so the scan passes over a statement table
  that does not directly follow a summary table: it is taken only in pairing position.\<close>

lemma statement_not_summary:
  assumes "is_statement_table n"
  shows "parse_cis_table n = None"
proof (cases n)
  case Nil
  then show ?thesis by (simp add: parse_cis_table_def)
next
  case (Cons first cells)
  show ?thesis
  proof (cases "control_id_group first")
    case None
    then show ?thesis
      by (simp add: Cons parse_cis_table_def cis_header_match_def header_match_def)
  next
    case (Some p)
    obtain cid rest where p: "p = (cid, rest)" by (cases p)
    from assms Cons Some p have "spaces_then ''What is the solution'' rest"
      by (simp add: is_statement_table_def statement_header_match_def header_match_def
          split: if_splits)
    then obtain r where "dropWhile py_isspace rest = CHR ''W'' # r"
      unfolding spaces_then_def by (auto dest: startswith_Cons)
    then have "\<not> spaces_then ''Control Summary Information'' rest"
      by (simp add: spaces_then_def)
    with Some p show ?thesis
      by (simp add: Cons parse_cis_table_def cis_header_match_def header_match_def)
  qed
qed

lemma extract_controls_skip:
  "parse_cis_table t = None \<Longrightarrow> extract_controls (t # ts) = extract_controls ts"
  by (cases ts) simp_all

lemma statement_table_out_of_position:
  "is_statement_table n \<Longrightarrow> extract_controls (n # ts) = extract_controls ts"
  by (rule extract_controls_skip) (rule statement_not_summary)

text \<open>A summary table, its statement table and a second summary table give two
  records; the second has no parts and no narrative.\<close>

lemma extract_controls_example:
  "extract_controls
     [[''AC-2 Control Summary Information''],
      [''AC-2 What is the solution and how is it implemented?'',
       ''Part (b): Accounts are reviewed.''],
      [''AC-3 Control Summary Information'']]
   = [\<lparr>ec_control_id = ''ac-2'', ec_status = [], ec_origination = [], ec_roles = [],
        ec_params = [], ec_parts = [(''b'', ''Accounts are reviewed.'')],
        ec_raw_narrative = ''Part (b): Accounts are reviewed.''\<rparr>,
      \<lparr>ec_control_id = ''ac-3'', ec_status = [], ec_origination = [], ec_roles = [],
        ec_params = [], ec_parts = [], ec_raw_narrative = []\<rparr>]"
  by code_simp

text \<open>
  Claim C2 asks that a statement table be taken into a record only when it is the
  statement table of the same control as the summary table before it. The scan compares
  no ids: here the statement table of AC-3 directly follows the summary table of AC-2,
  and its part and narrative are returned in the record of AC-2.
\<close>

theorem extract_controls_pairs_by_position:
  "\<not> same_control
        [''AC-2 Control Summary Information'', ''Implementation Status: Implemented'']
        [''AC-3 What is the solution and how is it implemented?'',
         ''Part a: Access enforcement is automatic.'']
   \<and> extract_controls
        [[''AC-2 Control Summary Information'', ''Implementation Status: Implemented''],
         [''AC-3 What is the solution and how is it implemented?'',
          ''Part a: Access enforcement is automatic.'']]
     = [\<lparr>ec_control_id = ''ac-2'', ec_status = ''Implementation Status: Implemented'',
         ec_origination = [], ec_roles = [], ec_params = [],
         ec_parts = [(''a'', ''Access enforcement is automatic.'')],
         ec_raw_narrative = ''Part a: Access enforcement is automatic.''\<rparr>]"
  by code_simp

end
